theory Spec2Isabelle
  imports Main
begin

section \<open>JavaScript values and strings\<close>

text \<open>
  The handlers of \<^verbatim>\<open>src/api/hubspot/discovery-call.ts\<close> read \<^verbatim>\<open>req.body\<close>, a parsed JSON
  value, and the JSON bodies of the CRM's responses. A value is one of JavaScript's:
  \<^verbatim>\<open>undefined\<close> (what reading an absent property gives), \<^verbatim>\<open>null\<close>, a boolean, a
  number, a string, an array or an object. The program never computes with a number, so a
  number is kept as its rendering \<^verbatim>\<open>String(n)\<close>; it is falsy exactly when that rendering
  is \<^verbatim>\<open>0\<close> (JSON has no NaN). An object is the list of its own properties, the first
  entry of a key being the property. A string is a list of code units, \<^typ>\<open>char\<close>
  standing for the code units below 256.
\<close>

datatype jsval =
    JUndefined
  | JNull
  | JBool bool
  | JNum string
  | JStr string
  | JArr "jsval list"
  | JObj "(string \<times> jsval) list"

datatype exn = TypeError | SyntaxError | NetworkError | Thrown string

text \<open>Truthiness, and \<^verbatim>\<open>a || b\<close>.\<close>

fun truthy :: "jsval \<Rightarrow> bool" where
  "truthy JUndefined = False"
| "truthy JNull = False"
| "truthy (JBool b) = b"
| "truthy (JNum t) = (t \<noteq> ''0'')"
| "truthy (JStr s) = (s \<noteq> [])"
| "truthy (JArr xs) = True"
| "truthy (JObj kvs) = True"

definition js_or :: "jsval \<Rightarrow> jsval \<Rightarrow> jsval" where
  "js_or a b = (if truthy a then a else b)"

text \<open>
  Property access \<^verbatim>\<open>v.k\<close> for the keys the handlers read (none of them a built-in
  property of strings, arrays or numbers): a TypeError on \<^verbatim>\<open>undefined\<close> and \<^verbatim>\<open>null\<close>,
  the own property of an object, \<^verbatim>\<open>undefined\<close> otherwise.
\<close>

fun get_prop :: "jsval \<Rightarrow> string \<Rightarrow> exn + jsval" where
  "get_prop JUndefined k = Inl TypeError"
| "get_prop JNull k = Inl TypeError"
| "get_prop (JObj kvs) k = Inr (case map_of kvs k of None \<Rightarrow> JUndefined | Some v \<Rightarrow> v)"
| "get_prop v k = Inr JUndefined"

text \<open>\<^verbatim>\<open>Array.prototype.join\<close> on strings, and \<^verbatim>\<open>String.prototype.split\<close> with a
  one-character separator (\<^verbatim>\<open>''.split(' ')\<close> is \<^verbatim>\<open>['']\<close>).\<close>

fun join :: "string \<Rightarrow> string list \<Rightarrow> string" where
  "join sep [] = []"
| "join sep [x] = x"
| "join sep (x # y # ys) = x @ sep @ join sep (y # ys)"

fun js_split :: "char \<Rightarrow> string \<Rightarrow> string list" where
  "js_split sep [] = [[]]"
| "js_split sep (c # cs) =
     (if c = sep then [] # js_split sep cs
      else (c # hd (js_split sep cs)) # tl (js_split sep cs))"

text \<open>
  \<^verbatim>\<open>ToString(v)\<close>, as a template literal and \<^verbatim>\<open>join\<close> apply it. An object parsed from
  JSON renders as \<^verbatim>\<open>[object Object]\<close> through the inherited \<^verbatim>\<open>toString\<close>; when it has a
  \<^verbatim>\<open>toString\<close> property of its own, that property is not a function, the inherited
  \<^verbatim>\<open>valueOf\<close> (or an own one) gives no primitive either, and the conversion throws a
  TypeError. An array renders as its elements joined with a comma. \<^verbatim>\<open>join\<close> renders
  \<^verbatim>\<open>undefined\<close> and \<^verbatim>\<open>null\<close> elements as the empty string and converts the others from
  left to right, so it throws when one of them does.
\<close>

fun to_str :: "jsval \<Rightarrow> exn + string" and join_elems :: "jsval list \<Rightarrow> exn + string list" where
  "to_str JUndefined = Inr ''undefined''"
| "to_str JNull = Inr ''null''"
| "to_str (JBool b) = Inr (if b then ''true'' else ''false'')"
| "to_str (JNum t) = Inr t"
| "to_str (JStr s) = Inr s"
| "to_str (JArr xs) =
     (case join_elems xs of Inl e \<Rightarrow> Inl e | Inr ss \<Rightarrow> Inr (join '','' ss))"
| "to_str (JObj kvs) =
     (if ''toString'' \<in> set (map fst kvs) then Inl TypeError else Inr ''[object Object]'')"
| "join_elems [] = Inr []"
| "join_elems (x # xs) =
     (case (if x = JUndefined \<or> x = JNull then Inr [] else to_str x) of
        Inl e \<Rightarrow> Inl e
      | Inr s \<Rightarrow> (case join_elems xs of Inl e \<Rightarrow> Inl e | Inr ss \<Rightarrow> Inr (s # ss)))"

definition array_join :: "string \<Rightarrow> jsval list \<Rightarrow> exn + string" where
  "array_join sep xs = (case join_elems xs of Inl e \<Rightarrow> Inl e | Inr ss \<Rightarrow> Inr (join sep ss))"

text \<open>
  \<^verbatim>\<open>JSON.stringify\<close> as far as the receiver can tell: a property whose value is
  \<^verbatim>\<open>undefined\<close> is left out of an object, and an \<^verbatim>\<open>undefined\<close> array element is sent as
  \<^verbatim>\<open>null\<close>. The wire body of a call is kept as the JSON value it denotes.
\<close>

fun JSON_stringify :: "jsval \<Rightarrow> jsval"
  and stringify_elems :: "jsval list \<Rightarrow> jsval list"
  and stringify_props :: "(string \<times> jsval) list \<Rightarrow> (string \<times> jsval) list" where
  "JSON_stringify (JArr xs) = JArr (stringify_elems xs)"
| "JSON_stringify (JObj kvs) = JObj (stringify_props kvs)"
| "JSON_stringify JUndefined = JUndefined"
| "JSON_stringify JNull = JNull"
| "JSON_stringify (JBool b) = JBool b"
| "JSON_stringify (JNum t) = JNum t"
| "JSON_stringify (JStr s) = JStr s"
| "stringify_elems [] = []"
| "stringify_elems (x # xs) =
     (if x = JUndefined then JNull else JSON_stringify x) # stringify_elems xs"
| "stringify_props [] = []"
| "stringify_props ((k, v) # kvs) =
     (if v = JUndefined then stringify_props kvs
      else (k, JSON_stringify v) # stringify_props kvs)"

text \<open>\<^verbatim>\<open>String.prototype.trim\<close> removes white space and line terminators at both ends;
  among the code units below 256 these are tab, line feed, vertical tab, form feed,
  carriage return, space and the no-break space.\<close>

definition is_space :: "char \<Rightarrow> bool" where
  "is_space c = (c \<in> {CHR 0x09, CHR 0x0A, CHR 0x0B, CHR 0x0C, CHR 0x0D, CHR '' '', CHR 0xA0})"

definition trim :: "string \<Rightarrow> string" where
  "trim s = rev (dropWhile is_space (rev (dropWhile is_space s)))"

text \<open>Decimal rendering of a natural number (\<^verbatim>\<open>Date.now()\<close> and the loop index in a
  file name).\<close>

fun show_nat :: "nat \<Rightarrow> string" where
  "show_nat n =
     (if n < 10 then [char_of (48 + n)]
      else show_nat (n div 10) @ [char_of (48 + n mod 10)])"

declare show_nat.simps [simp del]

text \<open>
  The regular expression \<^verbatim>\<open>/Existing ID: (\d+)/\<close> of \<^verbatim>\<open>errorData.message.match\<close>: the
  leftmost place where the literal text is followed by a digit, and there the longest run
  of digits (group 1). \<^verbatim>\<open>\d\<close> is an ASCII digit.
\<close>

definition is_digit :: "char \<Rightarrow> bool" where
  "is_digit c = (c \<in> set ''0123456789'')"

fun match_existing_id :: "string \<Rightarrow> string option" where
  "match_existing_id [] = None"
| "match_existing_id (c # cs) =
     (if take 13 (c # cs) = ''Existing ID: '' \<and> takeWhile is_digit (drop 13 (c # cs)) \<noteq> []
      then Some (takeWhile is_digit (drop 13 (c # cs)))
      else match_existing_id cs)"

section \<open>The CRM as the handler sees it\<close>

text \<open>
  An outbound \<^verbatim>\<open>fetch\<close> call: its URL, method, \<^verbatim>\<open>Authorization\<close> header and body. A
  JSON body is the value it denotes; the multipart body of a file upload is kept as its
  parts (file name, file bytes, the \<^verbatim>\<open>options\<close> part, the \<^verbatim>\<open>folderPath\<close> part), without
  the random boundary string that frames them. The \<^verbatim>\<open>Content-Type\<close> header follows from
  the kind of body.
\<close>

datatype fetch_body =
    JsonBody jsval
  | FormBody string string jsval string

record fetch_call =
  url :: string
  http_method :: string
  authorization :: string
  payload :: fetch_body

text \<open>
  \<^verbatim>\<open>fetch\<close> either rejects (a network failure) or resolves to a response: its status,
  and its body as \<^verbatim>\<open>.json()\<close> parses it (\<open>None\<close> when the body is not JSON, so that
  \<^verbatim>\<open>.json()\<close> throws). \<^verbatim>\<open>.text()\<close> only feeds the log, and is taken to succeed.
\<close>

datatype fetch_result =
    Rejected
  | Response nat "jsval option"

text \<open>
  The world outside the handler: what the CRM answers to a call, given the calls it has
  received so far; what \<^verbatim>\<open>Date.now()\<close> reads in the \<open>i\<close>-th turn of the photo loop; and
  the platform's \<^verbatim>\<open>Buffer.from(s, 'base64')\<close>, which is not code of this repository and
  is total on strings.
\<close>

record world =
  crm :: "fetch_call list \<Rightarrow> fetch_call \<Rightarrow> fetch_result"
  date_now :: "nat \<Rightarrow> nat"
  buffer_from_base64 :: "string \<Rightarrow> string"

definition fetch :: "world \<Rightarrow> fetch_call list \<Rightarrow> fetch_call \<Rightarrow> fetch_result \<times> fetch_call list" where
  "fetch w tr c = (crm w tr c, tr @ [c])"

definition ok :: "nat \<Rightarrow> bool" where
  "ok st = (200 \<le> st \<and> st \<le> 299)"

definition HUBSPOT_API_URL :: string where
  "HUBSPOT_API_URL = ''https://api.hubapi.com''"

text \<open>\<^verbatim>\<open>`Bearer ${HUBSPOT_API_KEY}`\<close>; the key is \<open>None\<close> when the environment variable
  is not set.\<close>

definition bearer :: "string option \<Rightarrow> string" where
  "bearer key = ''Bearer '' @ (case key of None \<Rightarrow> ''undefined'' | Some k \<Rightarrow> k)"

text \<open>What the handler answers: the status and the JSON body passed to \<^verbatim>\<open>res.json\<close>.
  A \<open>contactId\<close> of \<^verbatim>\<open>undefined\<close> is a body without that key.\<close>

record http_response =
  status :: nat
  success :: bool
  contactId :: jsval
  message :: string

record request =
  req_method :: string
  req_body :: jsval

section \<open>The handler with photo upload (discovery-call.ts, lines 1 to 227)\<close>

subsection \<open>Field normalisation (lines 111 to 152)\<close>

text \<open>
  \<^verbatim>\<open>fullName.trim().split(' ')\<close> with \<^verbatim>\<open>fullName = formData.contactName || ''\<close>: reading
  the property throws when the body is \<^verbatim>\<open>undefined\<close> or \<^verbatim>\<open>null\<close>, and \<^verbatim>\<open>.trim\<close> is
  not a function on a truthy value that is not a string.
\<close>

definition nameParts :: "jsval \<Rightarrow> exn + string list" where
  "nameParts formData =
     (case get_prop formData ''contactName'' of
        Inl e \<Rightarrow> Inl e
      | Inr v \<Rightarrow>
          (case js_or v (JStr []) of
             JStr fullName \<Rightarrow> Inr (js_split CHR '' '' (trim fullName))
           | _ \<Rightarrow> Inl TypeError))"

text \<open>\<^verbatim>\<open>nameParts[0] || ''\<close> and \<^verbatim>\<open>nameParts.slice(1).join(' ') || ''\<close>.\<close>

definition firstname :: "string list \<Rightarrow> string" where
  "firstname parts = (case parts of [] \<Rightarrow> [] | p # _ \<Rightarrow> p)"

definition lastname :: "string list \<Rightarrow> string" where
  "lastname parts = join '' '' (drop 1 parts)"

text \<open>A field of the body once the body is known to be neither \<^verbatim>\<open>undefined\<close> nor
  \<^verbatim>\<open>null\<close> (reading \<^verbatim>\<open>contactName\<close> has succeeded).\<close>

definition field :: "jsval \<Rightarrow> string \<Rightarrow> jsval" where
  "field formData k = (case get_prop formData k of Inl e \<Rightarrow> JUndefined | Inr v \<Rightarrow> v)"

text \<open>\<^verbatim>\<open>Array.isArray(formData['phase[]']) ? formData['phase[]'].join(';') : formData['phase[]'] || ''\<close>\<close>

text \<open>The \<^verbatim>\<open>join\<close> throws when an element of the array cannot be converted to a
  string.\<close>

definition planningStage :: "jsval \<Rightarrow> exn + jsval" where
  "planningStage formData =
     (case field formData ''phase[]'' of
        JArr xs \<Rightarrow> (case array_join '';'' xs of Inl e \<Rightarrow> Inl e | Inr s \<Rightarrow> Inr (JStr s))
      | v \<Rightarrow> Inr (js_or v (JStr [])))"

text \<open>The variable \<^verbatim>\<open>planningStage\<close> where the payloads read it: \<^verbatim>\<open>planningStage\<close> has
  then been assigned without a throw (the handlers below test that first).\<close>

definition planningStage_value :: "jsval \<Rightarrow> jsval" where
  "planningStage_value formData =
     (case planningStage formData of Inl e \<Rightarrow> JUndefined | Inr v \<Rightarrow> v)"

text \<open>The seven custom properties, as both revisions of the handler write them.\<close>

definition customProperties :: "jsval \<Rightarrow> (string \<times> jsval) list" where
  "customProperties formData =
     [(''wearthy_service_type'', js_or (field formData ''serviceType'') (JStr [])),
      (''wearthy_student_count'', js_or (field formData ''studentCount'') (JStr [])),
      (''wearthy_budget_range'', js_or (field formData ''indicativeBudget'') (JStr [])),
      (''wearthy_age_group'', js_or (field formData ''ageGroup'') (JStr [])),
      (''wearthy_planning_stage'', js_or (planningStage_value formData) (JStr [])),
      (''message'', js_or (field formData ''additional-info'') (JStr [])),
      (''wearthy_discovery_call_requested'', JStr ''true'')]"

definition basicProperties :: "jsval \<Rightarrow> string list \<Rightarrow> (string \<times> jsval) list" where
  "basicProperties formData parts =
     [(''email'', field formData ''email''),
      (''firstname'', JStr (firstname parts)),
      (''lastname'', JStr (lastname parts)),
      (''phone'', field formData ''phone''),
      (''company'', field formData ''serviceName''),
      (''jobtitle'', field formData ''position'')]"

text \<open>Lines 111 to 152: the name is split, then the planning stage is joined, then the
  payload is built; a throw of either ends the \<^verbatim>\<open>try\<close> block before any call.\<close>

definition contactPayload :: "jsval \<Rightarrow> exn + jsval" where
  "contactPayload formData =
     (case nameParts formData of
        Inl e \<Rightarrow> Inl e
      | Inr parts \<Rightarrow>
          (case planningStage formData of
             Inl e \<Rightarrow> Inl e
           | Inr ps \<Rightarrow>
               Inr (JObj [(''properties'',
                      JObj (basicProperties formData parts @ customProperties formData))])))"

subsection \<open>Create or update (lines 154 to 191)\<close>

definition create_call :: "string option \<Rightarrow> jsval \<Rightarrow> fetch_call" where
  "create_call key p =
     \<lparr>url = HUBSPOT_API_URL @ ''/crm/v3/contacts'', http_method = ''POST'',
      authorization = bearer key, payload = JsonBody (JSON_stringify p)\<rparr>"

definition update_call :: "string option \<Rightarrow> string \<Rightarrow> jsval \<Rightarrow> fetch_call" where
  "update_call key ident p =
     \<lparr>url = HUBSPOT_API_URL @ ''/crm/v3/objects/contacts/'' @ ident, http_method = ''PATCH'',
      authorization = bearer key, payload = JsonBody (JSON_stringify p)\<rparr>"

text \<open>\<^verbatim>\<open>(await r.json()).id\<close>: the parse may throw, and so may reading \<^verbatim>\<open>id\<close> of a body
  that is \<^verbatim>\<open>null\<close>.\<close>

definition json_id :: "jsval option \<Rightarrow> exn + jsval" where
  "json_id b = (case b of None \<Rightarrow> Inl SyntaxError | Some data \<Rightarrow> get_prop data ''id'')"

text \<open>
  \<^verbatim>\<open>errorData.message.match(/Existing ID: (\d+)/)?.[1]\<close>: \<open>Inr None\<close> is \<^verbatim>\<open>undefined\<close>
  (no match); a message that is not a string has no \<^verbatim>\<open>match\<close> method.
\<close>

definition existingContactId :: "jsval option \<Rightarrow> exn + string option" where
  "existingContactId b =
     (case b of
        None \<Rightarrow> Inl SyntaxError
      | Some errorData \<Rightarrow>
          (case get_prop errorData ''message'' of
             Inl e \<Rightarrow> Inl e
           | Inr (JStr m) \<Rightarrow> Inr (match_existing_id m)
           | Inr _ \<Rightarrow> Inl TypeError))"

text \<open>The result is the value of \<^verbatim>\<open>contactId\<close> (\<^verbatim>\<open>undefined\<close> when it was never
  assigned) or the exception thrown, with the calls made.\<close>

definition create_or_update ::
  "string option \<Rightarrow> world \<Rightarrow> jsval \<Rightarrow> (exn + jsval) \<times> fetch_call list" where
  "create_or_update key w p =
     (case fetch w [] (create_call key p) of
        (Rejected, tr) \<Rightarrow> (Inl NetworkError, tr)
      | (Response st b, tr) \<Rightarrow>
          if st = 409 then
            (case existingContactId b of
               Inl e \<Rightarrow> (Inl e, tr)
             | Inr None \<Rightarrow> (Inr JUndefined, tr)
             | Inr (Some ident) \<Rightarrow>
                 (case fetch w tr (update_call key ident p) of
                    (Rejected, tr') \<Rightarrow> (Inl NetworkError, tr')
                  | (Response ust ub, tr') \<Rightarrow> (json_id ub, tr')))
          else if ok st then (json_id b, tr)
          else (case b of
                  None \<Rightarrow> (Inl SyntaxError, tr)
                | Some errorData \<Rightarrow> (Inl (Thrown ''Failed to create contact in HubSpot''), tr)))"

subsection \<open>Photo upload and the note (lines 7 to 102 and 193 to 212)\<close>

definition upload_call :: "string option \<Rightarrow> string \<Rightarrow> string \<Rightarrow> fetch_call" where
  "upload_call key fileName buffer =
     \<lparr>url = HUBSPOT_API_URL @ ''/files/v3/files'', http_method = ''POST'',
      authorization = bearer key,
      payload = FormBody fileName buffer (JObj [(''access'', JStr ''PRIVATE'')])
                  ''/discovery-call-photos''\<rparr>"

text \<open>
  \<^verbatim>\<open>uploadFileToHubSpot\<close>: everything is inside \<^verbatim>\<open>try\<close>, and the \<^verbatim>\<open>catch\<close> returns
  \<^verbatim>\<open>null\<close>. \<^verbatim>\<open>fileData.split\<close> is not a function unless \<^verbatim>\<open>fileData\<close> is a string;
  \<^verbatim>\<open>split(',')[1]\<close> is \<^verbatim>\<open>undefined\<close> when there is no comma, and
  \<^verbatim>\<open>Buffer.from(undefined, 'base64')\<close> throws. The result is \<^verbatim>\<open>result.id\<close>, whatever
  the CRM sent there.
\<close>

definition uploadFileToHubSpot ::
  "string option \<Rightarrow> world \<Rightarrow> fetch_call list \<Rightarrow> jsval \<Rightarrow> string \<Rightarrow> jsval \<times> fetch_call list" where
  "uploadFileToHubSpot key w tr fileData fileName =
     (case fileData of
        JStr s \<Rightarrow>
          (case drop 1 (js_split CHR '','' s) of
             [] \<Rightarrow> (JNull, tr)
           | base64Data # _ \<Rightarrow>
               (case fetch w tr (upload_call key fileName (buffer_from_base64 w base64Data)) of
                  (Rejected, tr') \<Rightarrow> (JNull, tr')
                | (Response st b, tr') \<Rightarrow>
                    if \<not> ok st then (JNull, tr')
                    else (case json_id b of Inl e \<Rightarrow> (JNull, tr') | Inr v \<Rightarrow> (v, tr'))))
      | _ \<Rightarrow> (JNull, tr))"

text \<open>The note call, given \<^verbatim>\<open>contactId\<close> and the value of \<^verbatim>\<open>fileIds.join(';')\<close>.\<close>

definition note_call :: "string option \<Rightarrow> jsval \<Rightarrow> string \<Rightarrow> fetch_call" where
  "note_call key cid attachment_ids =
     \<lparr>url = HUBSPOT_API_URL @ ''/crm/v3/objects/notes'', http_method = ''POST'',
      authorization = bearer key,
      payload = JsonBody (JSON_stringify (JObj
        [(''properties'', JObj
            [(''hs_note_body'', JStr ''Discovery call photos submitted via website form''),
             (''hs_attachment_ids'', JStr attachment_ids)]),
         (''associations'', JArr [JObj
            [(''to'', JObj [(''id'', cid)]),
             (''types'', JArr [JObj
                [(''associationCategory'', JStr ''HUBSPOT_DEFINED''),
                 (''associationTypeId'', JNum ''202'')]])]])]))\<rparr>"

text \<open>
  \<^verbatim>\<open>createNoteWithAttachments\<close>: everything is inside \<^verbatim>\<open>try\<close>. The payload is built
  first: when \<^verbatim>\<open>fileIds.join(';')\<close> throws, no call is made. Otherwise the call is made,
  and neither a rejection nor a failure status reaches the caller.
\<close>

definition createNoteWithAttachments ::
  "string option \<Rightarrow> world \<Rightarrow> fetch_call list \<Rightarrow> jsval \<Rightarrow> jsval list \<Rightarrow> fetch_call list" where
  "createNoteWithAttachments key w tr cid fileIds =
     (case array_join '';'' fileIds of
        Inl e \<Rightarrow> tr
      | Inr attachment_ids \<Rightarrow> snd (fetch w tr (note_call key cid attachment_ids)))"

definition photo_name :: "world \<Rightarrow> nat \<Rightarrow> string" where
  "photo_name w i = ''discovery-call-photo-'' @ show_nat (date_now w i) @ ''-'' @ show_nat i @ ''.jpg''"

text \<open>The loop \<^verbatim>\<open>for (let i = 0; i < photos.length; i++)\<close>, from index \<open>i\<close> on, with the
  \<^verbatim>\<open>fileIds\<close> collected so far.\<close>

fun upload_photos ::
  "string option \<Rightarrow> world \<Rightarrow> jsval list \<Rightarrow> nat \<Rightarrow> jsval list \<Rightarrow> fetch_call list
     \<Rightarrow> jsval list \<times> fetch_call list" where
  "upload_photos key w [] i fileIds tr = (fileIds, tr)"
| "upload_photos key w (photo # photos) i fileIds tr =
     (case uploadFileToHubSpot key w tr photo (photo_name w i) of
        (fileId, tr') \<Rightarrow>
          upload_photos key w photos (i + 1)
            (if truthy fileId then fileIds @ [fileId] else fileIds) tr')"

text \<open>\<^verbatim>\<open>if (photos && Array.isArray(photos) && photos.length > 0 && contactId)\<close>\<close>

definition photo_phase ::
  "string option \<Rightarrow> world \<Rightarrow> jsval \<Rightarrow> jsval \<Rightarrow> fetch_call list \<Rightarrow> fetch_call list" where
  "photo_phase key w formData cid tr =
     (case field formData ''photos'' of
        JArr photos \<Rightarrow>
          if photos \<noteq> [] \<and> truthy cid then
            (case upload_photos key w photos 0 [] tr of
               (fileIds, tr') \<Rightarrow>
                 if fileIds \<noteq> [] then createNoteWithAttachments key w tr' cid fileIds
                 else tr')
          else tr
      | _ \<Rightarrow> tr)"

subsection \<open>The handler (lines 104 to 227)\<close>

definition method_not_allowed :: http_response where
  "method_not_allowed =
     \<lparr>status = 405, success = False, contactId = JUndefined, message = ''Method not allowed''\<rparr>"

definition error_response :: http_response where
  "error_response =
     \<lparr>status = 500, success = False, contactId = JUndefined,
      message = ''An error occurred. Please try again or contact us directly.''\<rparr>"

definition success_response :: "jsval \<Rightarrow> http_response" where
  "success_response cid =
     \<lparr>status = 200, success = True, contactId = cid,
      message = ''Thank you! Please select a time below to speak with Flora.''\<rparr>"

definition handler :: "string option \<Rightarrow> world \<Rightarrow> request \<Rightarrow> http_response \<times> fetch_call list" where
  "handler key w req =
     (if req_method req \<noteq> ''POST'' then (method_not_allowed, [])
      else
        (case contactPayload (req_body req) of
           Inl e \<Rightarrow> (error_response, [])
         | Inr p \<Rightarrow>
             (case create_or_update key w p of
                (Inl e, tr) \<Rightarrow> (error_response, tr)
              | (Inr cid, tr) \<Rightarrow>
                  (success_response cid, photo_phase key w (req_body req) cid tr))))"

section \<open>The handler with the delayed update (discovery-call.ts, lines 228 to 565)\<close>

text \<open>
  This revision checks the credential, creates (or updates) the contact with the six basic
  properties only, and sends the custom properties in a second \<^verbatim>\<open>PATCH\<close>, two seconds
  later (the wait is not modelled). Its \<^verbatim>\<open>uploadFileToHubSpot\<close> and
  \<^verbatim>\<open>createNoteWithAttachments\<close> are those of the first revision, line for line. It logs
  much; a log is modelled where it can throw, that is where a template literal converts
  \<^verbatim>\<open>contactId\<close> or \<^verbatim>\<open>fileId\<close> to a string outside the helpers' \<^verbatim>\<open>try\<close> blocks
  (\<^verbatim>\<open>console.log\<close> with an object as a further argument does not convert it).
\<close>

text \<open>Lines 357 to 389: the name, then the planning stage (line 375, which may throw),
  then the payload of the basic properties.\<close>

definition contactPayload2 :: "jsval \<Rightarrow> exn + jsval" where
  "contactPayload2 formData =
     (case nameParts formData of
        Inl e \<Rightarrow> Inl e
      | Inr parts \<Rightarrow>
          (case planningStage formData of
             Inl e \<Rightarrow> Inl e
           | Inr ps \<Rightarrow> Inr (JObj [(''properties'', JObj (basicProperties formData parts))])))"

definition customPayload :: "jsval \<Rightarrow> jsval" where
  "customPayload formData = JObj [(''properties'', JObj (customProperties formData))]"

definition create_call2 :: "string option \<Rightarrow> jsval \<Rightarrow> fetch_call" where
  "create_call2 key p =
     \<lparr>url = HUBSPOT_API_URL @ ''/crm/v3/objects/contacts'', http_method = ''POST'',
      authorization = bearer key, payload = JsonBody (JSON_stringify p)\<rparr>"

text \<open>The second \<^verbatim>\<open>PATCH\<close>, addressed to \<^verbatim>\<open>`.../contacts/${contactId}`\<close>: the template
  literal throws when \<^verbatim>\<open>contactId\<close> cannot be converted, before the call; the status of
  the answer is only logged, a rejection is thrown.\<close>

definition custom_update ::
  "string option \<Rightarrow> world \<Rightarrow> fetch_call list \<Rightarrow> jsval \<Rightarrow> jsval
     \<Rightarrow> (exn + jsval) \<times> fetch_call list" where
  "custom_update key w tr cid custom =
     (case to_str cid of
        Inl e \<Rightarrow> (Inl e, tr)
      | Inr ident \<Rightarrow>
          (case fetch w tr (update_call key ident custom) of
             (Rejected, tr') \<Rightarrow> (Inl NetworkError, tr')
           | (Response st b, tr') \<Rightarrow> (Inr cid, tr')))"

definition create_or_update2 ::
  "string option \<Rightarrow> world \<Rightarrow> jsval \<Rightarrow> jsval \<Rightarrow> (exn + jsval) \<times> fetch_call list" where
  "create_or_update2 key w p custom =
     (case fetch w [] (create_call2 key p) of
        (Rejected, tr) \<Rightarrow> (Inl NetworkError, tr)
      | (Response st b, tr) \<Rightarrow>
          if st = 409 then
            (case existingContactId b of
               Inl e \<Rightarrow> (Inl e, tr)
             | Inr None \<Rightarrow> (Inr JUndefined, tr)
             | Inr (Some ident) \<Rightarrow>
                 (case fetch w tr (update_call key ident p) of
                    (Rejected, tr') \<Rightarrow> (Inl NetworkError, tr')
                  | (Response ust ub, tr') \<Rightarrow>
                      (case json_id ub of
                         Inl e \<Rightarrow> (Inl e, tr')
                       | Inr cid \<Rightarrow> custom_update key w tr' cid custom)))
          else if ok st then
            (case json_id b of
               Inl e \<Rightarrow> (Inl e, tr)
             | Inr cid \<Rightarrow> custom_update key w tr cid custom)
          else (Inl (Thrown ''Failed to create contact in HubSpot''), tr))"

definition config_error_response :: http_response where
  "config_error_response =
     \<lparr>status = 500, success = False, contactId = JUndefined,
      message = ''Server configuration error. Please contact support.''\<rparr>"

text \<open>
  The photo loop of lines 528 to 540. After a successful upload it logs
  \<^verbatim>\<open>`Photo ${i + 1} uploaded successfully with ID: ${fileId}`\<close> before it keeps the
  identifier: a \<^verbatim>\<open>fileId\<close> that cannot be converted throws there, out of the loop and
  into the handler's \<^verbatim>\<open>catch\<close>.
\<close>

fun upload_photos2 ::
  "string option \<Rightarrow> world \<Rightarrow> jsval list \<Rightarrow> nat \<Rightarrow> jsval list \<Rightarrow> fetch_call list
     \<Rightarrow> (exn + jsval list) \<times> fetch_call list" where
  "upload_photos2 key w [] i fileIds tr = (Inr fileIds, tr)"
| "upload_photos2 key w (photo # photos) i fileIds tr =
     (case uploadFileToHubSpot key w tr photo (photo_name w i) of
        (fileId, tr') \<Rightarrow>
          if truthy fileId then
            (case to_str fileId of
               Inl e \<Rightarrow> (Inl e, tr')
             | Inr s \<Rightarrow> upload_photos2 key w photos (i + 1) (fileIds @ [fileId]) tr')
          else upload_photos2 key w photos (i + 1) fileIds tr')"

text \<open>
  Lines 524 to 550. Inside the \<^verbatim>\<open>if\<close> the first statement logs
  \<^verbatim>\<open>`Processing ${photos.length} photos for contact ${contactId}`\<close>. The result is the
  exception thrown, if any, and the calls made.
\<close>

definition photo_phase2 ::
  "string option \<Rightarrow> world \<Rightarrow> jsval \<Rightarrow> jsval \<Rightarrow> fetch_call list \<Rightarrow> exn option \<times> fetch_call list" where
  "photo_phase2 key w formData cid tr =
     (case field formData ''photos'' of
        JArr photos \<Rightarrow>
          if photos \<noteq> [] \<and> truthy cid then
            (case to_str cid of
               Inl e \<Rightarrow> (Some e, tr)
             | Inr s \<Rightarrow>
                 (case upload_photos2 key w photos 0 [] tr of
                    (Inl e, tr') \<Rightarrow> (Some e, tr')
                  | (Inr fileIds, tr') \<Rightarrow>
                      (None, if fileIds \<noteq> [] then createNoteWithAttachments key w tr' cid fileIds
                             else tr')))
          else (None, tr)
      | _ \<Rightarrow> (None, tr))"

text \<open>\<^verbatim>\<open>!HUBSPOT_API_KEY\<close> holds of an unset variable and of the empty string.\<close>

definition handler2 :: "string option \<Rightarrow> world \<Rightarrow> request \<Rightarrow> http_response \<times> fetch_call list" where
  "handler2 key w req =
     (if req_method req \<noteq> ''POST'' then (method_not_allowed, [])
      else if key = None \<or> key = Some [] then (config_error_response, [])
      else
        (case contactPayload2 (req_body req) of
           Inl e \<Rightarrow> (error_response, [])
         | Inr p \<Rightarrow>
             (case create_or_update2 key w p (customPayload (req_body req)) of
                (Inl e, tr) \<Rightarrow> (error_response, tr)
              | (Inr cid, tr) \<Rightarrow>
                  (case photo_phase2 key w (req_body req) cid tr of
                     (Some e, tr') \<Rightarrow> (error_response, tr')
                   | (None, tr') \<Rightarrow> (success_response cid, tr')))))"

section \<open>The form-data route (src/unnamed/part_000)\<close>

text \<open>
  \<^verbatim>\<open>POST\<close> reads a \<^verbatim>\<open>FormData\<close>: a list of entries, each a string or a \<^verbatim>\<open>File\<close>.
  \<^verbatim>\<open>request.formData()\<close> throws when the body is not form data (\<open>None\<close>).
  \<^verbatim>\<open>get\<close> gives the first entry of a name or \<^verbatim>\<open>null\<close>; a \<^verbatim>\<open>File\<close> is an object
  with no property that JSON shows. The create-or-update code (lines 49 to 86) is that of
  the first handler, line for line. Photos are only counted and logged, by
  \<^verbatim>\<open>`Received ${photos.length} photos for contact ${contactId}`\<close> (line 93), which throws
  when there is a \<^verbatim>\<open>photos\<close> entry and \<^verbatim>\<open>contactId\<close> is truthy and cannot be converted to
  a string.
\<close>

datatype form_value = FText string | FFile

definition form_get :: "(string \<times> form_value) list \<Rightarrow> string \<Rightarrow> jsval" where
  "form_get formData k =
     (case map_of formData k of
        None \<Rightarrow> JNull
      | Some (FText s) \<Rightarrow> JStr s
      | Some FFile \<Rightarrow> JObj [])"

definition form_getAll :: "(string \<times> form_value) list \<Rightarrow> string \<Rightarrow> form_value list" where
  "form_getAll formData k = map snd (filter (\<lambda>e. fst e = k) formData)"

fun form_str :: "form_value \<Rightarrow> string" where
  "form_str (FText s) = s"
| "form_str FFile = ''[object File]''"

text \<open>\<^verbatim>\<open>fullName?.trim().split(' ') || ['', '']\<close>\<close>

definition form_nameParts :: "(string \<times> form_value) list \<Rightarrow> exn + string list" where
  "form_nameParts formData =
     (case form_get formData ''contactName'' of
        JNull \<Rightarrow> Inr [[], []]
      | JStr fullName \<Rightarrow> Inr (js_split CHR '' '' (trim fullName))
      | _ \<Rightarrow> Inl TypeError)"

text \<open>\<^verbatim>\<open>formData.getAll('phase[]').join(';')\<close>\<close>

definition form_planningStage :: "(string \<times> form_value) list \<Rightarrow> jsval" where
  "form_planningStage formData = JStr (join '';'' (map form_str (form_getAll formData ''phase[]'')))"

definition form_contactPayload :: "(string \<times> form_value) list \<Rightarrow> exn + jsval" where
  "form_contactPayload formData =
     (case form_nameParts formData of
        Inl e \<Rightarrow> Inl e
      | Inr parts \<Rightarrow>
          Inr (JObj [(''properties'', JObj
            [(''email'', form_get formData ''email''),
             (''firstname'', JStr (firstname parts)),
             (''lastname'', JStr (lastname parts)),
             (''phone'', form_get formData ''phone''),
             (''company'', form_get formData ''serviceName''),
             (''jobtitle'', form_get formData ''position''),
             (''wearthy_service_type'', js_or (form_get formData ''serviceType'') (JStr [])),
             (''wearthy_student_count'', js_or (form_get formData ''studentCount'') (JStr [])),
             (''wearthy_budget_range'', js_or (form_get formData ''indicativeBudget'') (JStr [])),
             (''wearthy_age_group'', js_or (form_get formData ''ageGroup'') (JStr [])),
             (''wearthy_planning_stage'', js_or (form_planningStage formData) (JStr [])),
             (''message'', js_or (form_get formData ''additional-info'') (JStr [])),
             (''wearthy_discovery_call_requested'', JStr ''true'')])]))"

definition POST ::
  "string option \<Rightarrow> world \<Rightarrow> (string \<times> form_value) list option
     \<Rightarrow> http_response \<times> fetch_call list" where
  "POST key w request =
     (case request of
        None \<Rightarrow> (error_response, [])
      | Some formData \<Rightarrow>
          (case form_contactPayload formData of
             Inl e \<Rightarrow> (error_response, [])
           | Inr p \<Rightarrow>
               (case create_or_update key w p of
                  (Inl e, tr) \<Rightarrow> (error_response, tr)
                | (Inr cid, tr) \<Rightarrow>
                    if form_getAll formData ''photos'' \<noteq> [] \<and> truthy cid then
                      (case to_str cid of
                         Inl e \<Rightarrow> (error_response, tr)
                       | Inr s \<Rightarrow> (success_response cid, tr))
                    else (success_response cid, tr))))"

section \<open>Reading a run\<close>

text \<open>
  A run of a handler is its response and the list of outbound calls, in order. The calls
  are told apart by method and URL. \<open>sent_property c k\<close> is the value of property \<open>k\<close>
  in the \<^verbatim>\<open>properties\<close> object of the JSON body of call \<open>c\<close>, \<^verbatim>\<open>undefined\<close> when the
  body has no such key.
\<close>

definition is_create :: "fetch_call \<Rightarrow> bool" where
  "is_create c = (http_method c = ''POST'' \<and>
     (url c = HUBSPOT_API_URL @ ''/crm/v3/contacts'' \<or>
      url c = HUBSPOT_API_URL @ ''/crm/v3/objects/contacts''))"

definition is_update :: "fetch_call \<Rightarrow> bool" where
  "is_update c = (http_method c = ''PATCH'')"

definition is_upload :: "fetch_call \<Rightarrow> bool" where
  "is_upload c = (http_method c = ''POST'' \<and> url c = HUBSPOT_API_URL @ ''/files/v3/files'')"

definition is_note :: "fetch_call \<Rightarrow> bool" where
  "is_note c = (http_method c = ''POST'' \<and> url c = HUBSPOT_API_URL @ ''/crm/v3/objects/notes'')"

definition sent_property :: "fetch_call \<Rightarrow> string \<Rightarrow> jsval" where
  "sent_property c k =
     (case payload c of
        JsonBody b \<Rightarrow> field (field b ''properties'') k
      | FormBody fileName buffer options folderPath \<Rightarrow> JUndefined)"

text \<open>What each turn of the photo loop got back from \<^verbatim>\<open>uploadFileToHubSpot\<close>, in order.\<close>

fun upload_results ::
  "string option \<Rightarrow> world \<Rightarrow> jsval list \<Rightarrow> nat \<Rightarrow> fetch_call list \<Rightarrow> jsval list" where
  "upload_results key w [] i tr = []"
| "upload_results key w (photo # photos) i tr =
     (case uploadFileToHubSpot key w tr photo (photo_name w i) of
        (fileId, tr') \<Rightarrow> fileId # upload_results key w photos (i + 1) tr')"


text \<open>\<^verbatim>\<open>Array.isArray\<close>, and whether a value can be converted to a string.\<close>

fun isArray :: "jsval \<Rightarrow> bool" where
  "isArray (JArr xs) = True"
| "isArray v = False"

definition renders :: "jsval \<Rightarrow> bool" where
  "renders v = (case to_str v of Inl e \<Rightarrow> False | Inr s \<Rightarrow> True)"

text \<open>A photo payload that is not a string, or a string without a comma.\<close>

fun no_data_url :: "jsval \<Rightarrow> bool" where
  "no_data_url (JStr s) = (CHR '','' \<notin> set s)"
| "no_data_url v = True"

subsection \<open>Example runs\<close>

text \<open>
  A CRM that answers the create call and every \<^verbatim>\<open>PATCH\<close> as given, refuses the second
  file it is sent, accepts the others as \<^verbatim>\<open>f1\<close> and \<^verbatim>\<open>f3\<close>, and accepts notes. Its
  decoder is a stand-in: nothing below depends on what a buffer holds.
\<close>

definition example_world :: "fetch_result \<Rightarrow> fetch_result \<Rightarrow> world" where
  "example_world on_create on_update =
     \<lparr>crm = (\<lambda>tr c.
        if is_create c then on_create
        else if is_update c then on_update
        else if is_upload c then
          (if length (filter is_upload tr) = 1 then Response 500 None
           else Response 201 (Some (JObj
                  [(''id'', JStr (if filter is_upload tr = [] then ''f1'' else ''f3''))])))
        else Response 201 (Some (JObj [(''id'', JStr ''n1'')]))),
      date_now = (\<lambda>i. 1000 + i),
      buffer_from_base64 = (\<lambda>s. [])\<rparr>"


definition created :: fetch_result where
  "created = Response 201 (Some (JObj [(''id'', JStr ''501'')]))"

definition updated :: fetch_result where
  "updated = Response 200 (Some (JObj [(''id'', JStr ''123'')]))"

definition updated_elsewhere :: fetch_result where
  "updated_elsewhere = Response 200 (Some (JObj [(''id'', JStr ''456'')]))"

definition conflict :: fetch_result where
  "conflict = Response 409 (Some (JObj
     [(''status'', JStr ''error''),
      (''message'', JStr ''Contact already exists. Existing ID: 123'')]))"

definition conflict_without_id :: fetch_result where
  "conflict_without_id = Response 409 (Some (JObj
     [(''status'', JStr ''error''), (''message'', JStr ''Contact already exists'')]))"

definition update_refused :: fetch_result where
  "update_refused = Response 400 (Some (JObj
     [(''status'', JStr ''error''), (''message'', JStr ''Property values were not valid'')]))"

definition example_body :: jsval where
  "example_body = JObj
     [(''contactName'', JStr ''Jane Doe''),
      (''email'', JStr ''jane@school.edu''),
      (''serviceName'', JStr ''Example School''),
      (''serviceType'', JStr ''primary-school''),
      (''phase[]'', JArr [JStr ''exploring'', JStr ''preparing-next-budget'']),
      (''photos'', JArr
         [JStr ''data:image/jpeg;base64,AAAA'',
          JStr ''data:image/jpeg;base64,BBBB'',
          JStr ''data:image/jpeg;base64,CCCC''])]"

definition example_request :: request where
  "example_request = \<lparr>req_method = ''POST'', req_body = example_body\<rparr>"

definition example_form :: "(string \<times> form_value) list" where
  "example_form =
     [(''contactName'', FText ''Jane Doe''),
      (''email'', FText ''jane@school.edu''),
      (''phase[]'', FText ''exploring''),
      (''phase[]'', FText ''preparing-next-budget'')]"

definition padded_name_request :: request where
  "padded_name_request =
     \<lparr>req_method = ''POST'', req_body = JObj [(''contactName'', JStr '' Jane Doe'')]\<rparr>"

definition get_request :: request where
  "get_request = \<lparr>req_method = ''GET'', req_body = JUndefined\<rparr>"

definition malformed_photo_request :: request where
  "malformed_photo_request =
     \<lparr>req_method = ''POST'',
      req_body = JObj
        [(''contactName'', JStr ''Jane Doe''),
         (''email'', JStr ''jane@school.edu''),
         (''photos'', JArr [JStr ''not-a-data-url'', JNum ''7''])]\<rparr>"

definition phase_request :: "jsval \<Rightarrow> request" where
  "phase_request v =
     \<lparr>req_method = ''POST'',
      req_body = JObj [(''contactName'', JStr ''Jane Doe''), (''phase[]'', v)]\<rparr>"

section \<open>Lemmas on strings and JSON bodies\<close>

subsection \<open>Strings\<close>

lemma js_split_not_Nil: "js_split sep s \<noteq> []"
  by (induction s) auto

lemma hd_js_split: "hd (js_split sep s) = takeWhile (\<lambda>c. c \<noteq> sep) s"
  by (induction s) auto

lemma join_js_split: "join [sep] (js_split sep s) = s"
proof (induction s)
  case Nil
  then show ?case by simp
next
  case (Cons c cs)
  obtain p ps where ps: "js_split sep cs = p # ps"
    using js_split_not_Nil [of sep cs] by (cases "js_split sep cs") auto
  show ?case
  proof (cases "c = sep")
    case True
    with Cons ps show ?thesis by simp
  next
    case False
    with Cons ps show ?thesis by (cases ps) auto
  qed
qed

lemma tl_js_split:
  "join [sep] (tl (js_split sep s)) = drop 1 (dropWhile (\<lambda>c. c \<noteq> sep) s)"
  by (induction s) (simp_all add: join_js_split)

lemma js_split_no_sep: "sep \<notin> set s \<Longrightarrow> js_split sep s = [s]"
  by (induction s) auto

lemma js_split_second:
  "sep \<in> set s \<Longrightarrow>
     \<exists>rest. tl (js_split sep s) =
       takeWhile (\<lambda>c. c \<noteq> sep) (drop 1 (dropWhile (\<lambda>c. c \<noteq> sep) s)) # rest"
proof (induction s)
  case Nil
  then show ?case by simp
next
  case (Cons c cs)
  show ?case
  proof (cases "c = sep")
    case True
    obtain p ps where "js_split sep cs = p # ps"
      using js_split_not_Nil [of sep cs] by (cases "js_split sep cs") auto
    with True hd_js_split [of sep cs] show ?thesis by simp
  next
    case False
    with Cons show ?thesis by simp
  qed
qed

lemma firstname_split: "firstname (js_split sep s) = takeWhile (\<lambda>c. c \<noteq> sep) s"
  using js_split_not_Nil [of sep s] hd_js_split [of sep s]
  by (cases "js_split sep s") (auto simp: firstname_def)

lemma lastname_split:
  "lastname (js_split CHR '' '' s) = drop 1 (dropWhile (\<lambda>c. c \<noteq> CHR '' '') s)"
  using tl_js_split [of "CHR '' ''" s] by (simp add: lastname_def drop_Suc)

lemma join_elems_strings: "join_elems (map JStr vs) = Inr vs"
  by (induction vs) auto

lemma array_join_strings: "array_join sep (map JStr vs) = Inr (join sep vs)"
  by (simp add: array_join_def join_elems_strings)

lemma truthy_defined: "truthy v \<Longrightarrow> v \<noteq> JUndefined \<and> v \<noteq> JNull"
  by (cases v) auto

lemma join_elems_truthy:
  "\<forall>v\<in>set vs. truthy v \<and> renders v \<Longrightarrow> \<exists>ss. join_elems vs = Inr ss \<and> length ss = length vs"
  by (induction vs) (auto simp: renders_def truthy_defined split: sum.splits)


subsection \<open>JSON bodies\<close>

lemma JSON_stringify_undefined: "(JSON_stringify v = JUndefined) = (v = JUndefined)"
  by (cases v) auto


lemma map_of_stringify_props:
  "distinct (map fst kvs) \<Longrightarrow>
     map_of (stringify_props kvs) k =
       (case map_of kvs k of
          None \<Rightarrow> None
        | Some v \<Rightarrow> if v = JUndefined then None else Some (JSON_stringify v))"
proof (induction kvs)
  case Nil
  then show ?case by simp
next
  case (Cons kv kvs)
  obtain k' v' where kv: "kv = (k', v')" by (cases kv)
  from Cons.prems kv have nin: "k' \<notin> fst ` set kvs" and d: "distinct (map fst kvs)"
    by auto
  from nin have none: "map_of kvs k' = None"
    by (simp add: map_of_eq_None_iff)
  show ?case
    using Cons.IH [OF d] kv none by (auto split: option.splits)
qed

lemma sent_property_json:
  assumes "payload c = JsonBody (JSON_stringify (JObj [(''properties'', JObj props)]))"
    and "distinct (map fst props)"
  shows "sent_property c k =
           JSON_stringify (case map_of props k of None \<Rightarrow> JUndefined | Some v \<Rightarrow> v)"
  using assms
  by (auto simp: sent_property_def field_def map_of_stringify_props JSON_stringify_undefined
      split: option.splits)

section \<open>Lemmas on the calls of a run\<close>

subsection \<open>Calls\<close>

lemma class_create_call:
  "is_create (create_call key p)" "\<not> is_update (create_call key p)"
  "\<not> is_upload (create_call key p)" "\<not> is_note (create_call key p)"
  "is_create (create_call2 key p)" "\<not> is_update (create_call2 key p)"
  "\<not> is_upload (create_call2 key p)" "\<not> is_note (create_call2 key p)"
  by (simp_all add: is_create_def is_update_def is_upload_def is_note_def create_call_def
      create_call2_def)

lemma class_update_call:
  "\<not> is_create (update_call key i p)" "is_update (update_call key i p)"
  "\<not> is_upload (update_call key i p)" "\<not> is_note (update_call key i p)"
  by (simp_all add: is_create_def is_update_def is_upload_def is_note_def update_call_def)

lemma class_upload_call:
  "\<not> is_create (upload_call key n b)" "\<not> is_update (upload_call key n b)"
  "is_upload (upload_call key n b)" "\<not> is_note (upload_call key n b)"
  by (simp_all add: is_create_def is_update_def is_upload_def is_note_def upload_call_def)

lemma class_note_call:
  "\<not> is_create (note_call key c f)" "\<not> is_update (note_call key c f)"
  "\<not> is_upload (note_call key c f)" "is_note (note_call key c f)"
  by (simp_all add: is_create_def is_update_def is_upload_def is_note_def note_call_def)

lemmas class_calls = class_create_call class_update_call class_upload_call class_note_call

lemma upload_not_contact: "is_upload c \<Longrightarrow> \<not> is_create c \<and> \<not> is_update c \<and> \<not> is_note c"
  by (auto simp: is_create_def is_update_def is_upload_def is_note_def HUBSPOT_API_URL_def)

lemma note_not_contact: "is_note c \<Longrightarrow> \<not> is_create c \<and> \<not> is_update c \<and> \<not> is_upload c"
  by (auto simp: is_create_def is_update_def is_upload_def is_note_def HUBSPOT_API_URL_def)

subsection \<open>The photo loop\<close>

lemma uploadFile_trace:
  "uploadFileToHubSpot key w tr fileData fileName = (r, tr') \<Longrightarrow>
     tr' = tr \<or> (\<exists>b. tr' = tr @ [upload_call key fileName b])"
  by (auto simp: uploadFileToHubSpot_def fetch_def
      split: jsval.splits list.splits fetch_result.splits if_splits sum.splits)

lemma upload_photos_trace:
  "upload_photos key w photos i ids tr = (ids', tr') \<Longrightarrow>
     \<exists>ext. tr' = tr @ ext \<and> (\<forall>c\<in>set ext. is_upload c)"
proof (induction photos arbitrary: i ids tr)
  case Nil
  then show ?case by simp
next
  case (Cons photo photos)
  obtain r tr1 where u: "uploadFileToHubSpot key w tr photo (photo_name w i) = (r, tr1)"
    by (cases "uploadFileToHubSpot key w tr photo (photo_name w i)")
  from uploadFile_trace [OF u] obtain e1 where e1: "tr1 = tr @ e1" "\<forall>c\<in>set e1. is_upload c"
    by (auto simp: class_calls)
  from Cons.prems u have "upload_photos key w photos (i + 1)
      (if truthy r then ids @ [r] else ids) tr1 = (ids', tr')"
    by simp
  from Cons.IH [OF this] obtain e2 where "tr' = tr1 @ e2" "\<forall>c\<in>set e2. is_upload c"
    by auto
  with e1 have "tr' = tr @ (e1 @ e2) \<and> (\<forall>c\<in>set (e1 @ e2). is_upload c)" by auto
  then show ?case by blast
qed



lemma createNote_calls:
  "createNoteWithAttachments key w tr cid fileIds =
     (case array_join '';'' fileIds of
        Inl e \<Rightarrow> tr
      | Inr s \<Rightarrow> tr @ [note_call key cid s])"
  by (simp add: createNoteWithAttachments_def fetch_def split: sum.splits)

lemma photo_phase_unfold:
  assumes "field formData ''photos'' = JArr photos" and "truthy cid"
  shows "photo_phase key w formData cid tr =
           (case upload_photos key w photos 0 [] tr of
              (ids, tr') \<Rightarrow>
                if ids = [] then tr' else createNoteWithAttachments key w tr' cid ids)"
  using assms
  by (cases photos) (auto simp: photo_phase_def split: prod.splits)

lemma photo_phase_falsy: "\<not> truthy cid \<Longrightarrow> photo_phase key w formData cid tr = tr"
  by (auto simp: photo_phase_def split: jsval.splits)

lemma photo_phase_trace:
  "\<exists>ext. photo_phase key w formData cid tr = tr @ ext \<and> (\<forall>c\<in>set ext. is_upload c \<or> is_note c)"
proof (cases "\<exists>photos. field formData ''photos'' = JArr photos \<and> photos \<noteq> [] \<and> truthy cid")
  case True
  then obtain photos where ph: "field formData ''photos'' = JArr photos" "truthy cid" by blast
  obtain ids tr' where up: "upload_photos key w photos 0 [] tr = (ids, tr')"
    by (cases "upload_photos key w photos 0 [] tr")
  from upload_photos_trace [OF up] obtain ext where
    ext: "tr' = tr @ ext" "\<forall>c\<in>set ext. is_upload c" by blast
  from ph up have pp: "photo_phase key w formData cid tr =
      (if ids = [] then tr' else createNoteWithAttachments key w tr' cid ids)"
    by (simp add: photo_phase_unfold)
  show ?thesis
  proof (cases "ids = [] \<or> (\<exists>e. array_join '';'' ids = Inl e)")
    case True
    with pp ext show ?thesis by (auto simp: createNote_calls)
  next
    case False
    then obtain s where s: "array_join '';'' ids = Inr s" "ids \<noteq> []"
      by (cases "array_join '';'' ids") auto
    with pp ext have "photo_phase key w formData cid tr = tr @ (ext @ [note_call key cid s])"
      by (simp add: createNote_calls)
    moreover from ext have "\<forall>c\<in>set (ext @ [note_call key cid s]). is_upload c \<or> is_note c"
      by (auto simp: class_calls)
    ultimately show ?thesis by blast
  qed
next
  case False
  then have "photo_phase key w formData cid tr = tr"
    by (auto simp: photo_phase_def split: jsval.splits)
  then show ?thesis by simp
qed

lemma photo_phase_contact_calls:
  "filter is_create (photo_phase key w formData cid tr) = filter is_create tr"
  "filter is_update (photo_phase key w formData cid tr) = filter is_update tr"
proof -
  obtain ext where ext: "photo_phase key w formData cid tr = tr @ ext"
    "\<forall>c\<in>set ext. is_upload c \<or> is_note c"
    using photo_phase_trace by blast
  then have "\<forall>c\<in>set ext. \<not> is_create c \<and> \<not> is_update c"
    using upload_not_contact note_not_contact by blast
  then have "filter is_create ext = []" "filter is_update ext = []"
    by (auto simp: filter_empty_conv)
  with ext show "filter is_create (photo_phase key w formData cid tr) = filter is_create tr"
    "filter is_update (photo_phase key w formData cid tr) = filter is_update tr"
    by simp_all
qed

text \<open>The loop of the second handler makes the calls of the first up to the place where
  it throws.\<close>

lemma upload_photos2_trace:
  "upload_photos2 key w photos i ids tr = (r, tr') \<Longrightarrow>
     \<exists>ext. tr' = tr @ ext \<and> (\<forall>c\<in>set ext. is_upload c)"
proof (induction photos arbitrary: i ids tr)
  case Nil
  then show ?case by simp
next
  case (Cons photo photos)
  obtain v tr1 where u: "uploadFileToHubSpot key w tr photo (photo_name w i) = (v, tr1)"
    by (cases "uploadFileToHubSpot key w tr photo (photo_name w i)")
  from uploadFile_trace [OF u] obtain e1 where e1: "tr1 = tr @ e1" "\<forall>c\<in>set e1. is_upload c"
    by (auto simp: class_calls)
  show ?case
  proof (cases "truthy v \<and> (\<exists>e. to_str v = Inl e)")
    case True
    with Cons.prems u have "tr' = tr1" by auto
    with e1 show ?thesis by blast
  next
    case False
    then obtain ids1 where "upload_photos2 key w photos (i + 1) ids1 tr1 = (r, tr')"
      using Cons.prems u by (cases "to_str v") (auto split: if_splits)
    from Cons.IH [OF this] obtain e2 where "tr' = tr1 @ e2" "\<forall>c\<in>set e2. is_upload c"
      by auto
    with e1 have "tr' = tr @ (e1 @ e2) \<and> (\<forall>c\<in>set (e1 @ e2). is_upload c)" by auto
    then show ?thesis by blast
  qed
qed

lemma upload_photos2_renders:
  "\<forall>v\<in>set (upload_results key w photos i tr). truthy v \<longrightarrow> renders v \<Longrightarrow>
     upload_photos2 key w photos i ids tr =
       (Inr (fst (upload_photos key w photos i ids tr)), snd (upload_photos key w photos i ids tr))"
  by (induction photos arbitrary: i ids tr)
    (auto simp: renders_def split: prod.splits sum.splits)

lemma photo_phase2_trace:
  "\<exists>ext. snd (photo_phase2 key w formData cid tr) = tr @ ext \<and>
     (\<forall>c\<in>set ext. is_upload c \<or> is_note c)"
proof (cases "\<exists>photos s. field formData ''photos'' = JArr photos \<and> photos \<noteq> [] \<and> truthy cid \<and>
    to_str cid = Inr s")
  case True
  then obtain photos s where ph: "field formData ''photos'' = JArr photos" "photos \<noteq> []"
    "truthy cid" "to_str cid = Inr s" by blast
  obtain r tr' where up: "upload_photos2 key w photos 0 [] tr = (r, tr')"
    by (cases "upload_photos2 key w photos 0 [] tr")
  from upload_photos2_trace [OF up] obtain ext where
    ext: "tr' = tr @ ext" "\<forall>c\<in>set ext. is_upload c" by blast
  show ?thesis
  proof (cases r)
    case (Inl e)
    with ph up ext show ?thesis by (auto simp: photo_phase2_def)
  next
    case (Inr ids)
    with ph up have pp: "snd (photo_phase2 key w formData cid tr) =
        (if ids = [] then tr' else createNoteWithAttachments key w tr' cid ids)"
      by (simp add: photo_phase2_def)
    show ?thesis
    proof (cases "ids = [] \<or> (\<exists>e. array_join '';'' ids = Inl e)")
      case True
      with pp ext show ?thesis by (auto simp: createNote_calls)
    next
      case False
      then obtain a where a: "array_join '';'' ids = Inr a" "ids \<noteq> []"
        by (cases "array_join '';'' ids") auto
      with pp ext have "snd (photo_phase2 key w formData cid tr) = tr @ (ext @ [note_call key cid a])"
        by (simp add: createNote_calls)
      moreover from ext have "\<forall>c\<in>set (ext @ [note_call key cid a]). is_upload c \<or> is_note c"
        by (auto simp: class_calls)
      ultimately show ?thesis by blast
    qed
  qed
next
  case False
  then have "snd (photo_phase2 key w formData cid tr) = tr"
    by (auto simp: photo_phase2_def split: jsval.splits sum.splits)
  then show ?thesis by simp
qed

lemma photo_phase2_contact_calls:
  "filter is_create (snd (photo_phase2 key w formData cid tr)) = filter is_create tr"
  "filter is_update (snd (photo_phase2 key w formData cid tr)) = filter is_update tr"
proof -
  obtain ext where ext: "snd (photo_phase2 key w formData cid tr) = tr @ ext"
    "\<forall>c\<in>set ext. is_upload c \<or> is_note c"
    using photo_phase2_trace by blast
  then have "\<forall>c\<in>set ext. \<not> is_create c \<and> \<not> is_update c"
    using upload_not_contact note_not_contact by blast
  then have "filter is_create ext = []" "filter is_update ext = []"
    by (auto simp: filter_empty_conv)
  with ext show "filter is_create (snd (photo_phase2 key w formData cid tr)) = filter is_create tr"
    "filter is_update (snd (photo_phase2 key w formData cid tr)) = filter is_update tr"
    by simp_all
qed

lemma photo_phase2_none:
  "\<not> truthy cid \<or> \<not> isArray (field formData ''photos'') \<or> field formData ''photos'' = JArr [] \<Longrightarrow>
     photo_phase2 key w formData cid tr = (None, tr)"
  by (auto simp: photo_phase2_def split: jsval.splits)

subsection \<open>Create or update\<close>

lemma create_or_update_trace:
  "create_or_update key w p = (r, tr) \<Longrightarrow>
     tr = [create_call key p] \<or> (\<exists>ident. tr = [create_call key p, update_call key ident p])"
  by (auto simp: create_or_update_def fetch_def
      split: fetch_result.splits if_splits sum.splits option.splits)


subsection \<open>The runs of the first handler\<close>

lemma handler_trace:
  assumes "req_method req = ''POST''" and "contactPayload (req_body req) = Inr p"
  shows "\<exists>ext. snd (handler key w req) = create_call key p # ext \<and>
           (\<forall>c\<in>set ext. c = create_call key p \<or> (\<exists>ident. c = update_call key ident p) \<or>
              is_upload c \<or> is_note c)"
proof -
  obtain r tr0 where cu: "create_or_update key w p = (r, tr0)"
    by (cases "create_or_update key w p")
  from create_or_update_trace [OF cu]
  have "\<exists>e0. tr0 = create_call key p # e0 \<and> (\<forall>c\<in>set e0. \<exists>ident. c = update_call key ident p)"
    by fastforce
  then obtain e0 where e0: "tr0 = create_call key p # e0"
    "\<forall>c\<in>set e0. \<exists>ident. c = update_call key ident p"
    by blast
  show ?thesis
  proof (cases r)
    case (Inl e)
    with assms cu e0 show ?thesis by (auto simp: handler_def)
  next
    case (Inr cid)
    obtain ext where ext: "photo_phase key w (req_body req) cid tr0 = tr0 @ ext"
      "\<forall>c\<in>set ext. is_upload c \<or> is_note c"
      using photo_phase_trace by blast
    with Inr assms cu e0 have "snd (handler key w req) = create_call key p # (e0 @ ext)"
      by (simp add: handler_def)
    moreover from e0 ext have "\<forall>c\<in>set (e0 @ ext). c = create_call key p \<or>
        (\<exists>ident. c = update_call key ident p) \<or> is_upload c \<or> is_note c"
      by auto
    ultimately show ?thesis by blast
  qed
qed

lemma handler_contact_payload:
  assumes "req_method req = ''POST''" and "contactPayload (req_body req) = Inr p"
    and "c \<in> set (snd (handler key w req))" and "is_create c \<or> is_update c"
  shows "payload c = JsonBody (JSON_stringify p)"
proof -
  from handler_trace [OF assms(1,2), of key w] assms(3)
  have "c = create_call key p \<or> (\<exists>ident. c = update_call key ident p) \<or> is_upload c \<or> is_note c"
    by (metis set_ConsD)
  with assms(4) upload_not_contact note_not_contact show ?thesis
    by (auto simp: create_call_def update_call_def)
qed

lemma contactPayload_props:
  "contactPayload formData = Inr p \<Longrightarrow>
     \<exists>parts. nameParts formData = Inr parts \<and>
       p = JObj [(''properties'', JObj (basicProperties formData parts @ customProperties formData))]"
  by (auto simp: contactPayload_def split: sum.splits)

lemma contactPayload_planningStage:
  "contactPayload formData = Inr p \<Longrightarrow> \<exists>ps. planningStage formData = Inr ps"
  "contactPayload2 formData = Inr p \<Longrightarrow> \<exists>ps. planningStage formData = Inr ps"
  "planningStage formData = Inl e \<Longrightarrow> \<exists>e'. contactPayload formData = Inl e'"
  "planningStage formData = Inl e \<Longrightarrow> \<exists>e'. contactPayload2 formData = Inl e'"
  by (auto simp: contactPayload_def contactPayload2_def split: sum.splits)

lemma distinct_props:
  "distinct (map fst (basicProperties formData parts @ customProperties formData))"
  "distinct (map fst (basicProperties formData parts))"
  "distinct (map fst (customProperties formData))"
  by (simp_all add: basicProperties_def customProperties_def)

lemma nameParts_string:
  "get_prop formData ''contactName'' = Inr (JStr s) \<Longrightarrow>
     nameParts formData = Inr (js_split CHR '' '' (trim s))"
  by (cases "s = []") (simp_all add: nameParts_def js_or_def trim_def)

lemma planningStage_array:
  "field formData ''phase[]'' = JArr xs \<Longrightarrow> join_elems xs = Inr ss \<Longrightarrow>
     planningStage formData = Inr (JStr (join '';'' ss))"
  "field formData ''phase[]'' = JArr xs \<Longrightarrow> join_elems xs = Inl e \<Longrightarrow>
     planningStage formData = Inl e"
  by (simp_all add: planningStage_def array_join_def)

lemma planningStage_single:
  "\<not> isArray (field formData ''phase[]'') \<Longrightarrow>
     planningStage formData = Inr (js_or (field formData ''phase[]'') (JStr []))"
  by (cases "field formData ''phase[]''") (simp_all add: planningStage_def)

lemma planningStage_value: "planningStage formData = Inr ps \<Longrightarrow> planningStage_value formData = ps"
  by (simp add: planningStage_value_def)


lemma handler_calls_payload:
  assumes "c \<in> set (snd (handler key w req))" and "is_create c \<or> is_update c"
  shows "\<exists>p. req_method req = ''POST'' \<and> contactPayload (req_body req) = Inr p \<and>
           payload c = JsonBody (JSON_stringify p)"
proof (cases "req_method req = ''POST''")
  case False
  with assms(1) show ?thesis by (simp add: handler_def)
next
  case True
  show ?thesis
  proof (cases "contactPayload (req_body req)")
    case (Inl e)
    with True assms(1) show ?thesis by (simp add: handler_def)
  next
    case (Inr p)
    with True handler_contact_payload [OF True Inr assms] show ?thesis by simp
  qed
qed

subsection \<open>The runs of the form-data route\<close>

lemma POST_trace:
  assumes "form_contactPayload formData = Inr q"
  shows "\<exists>ext. snd (POST key w (Some formData)) = create_call key q # ext \<and>
           (\<forall>c\<in>set ext. \<exists>ident. c = update_call key ident q)"
proof -
  obtain r tr0 where cu: "create_or_update key w q = (r, tr0)"
    by (cases "create_or_update key w q")
  from create_or_update_trace [OF cu]
  have "\<exists>e0. tr0 = create_call key q # e0 \<and> (\<forall>c\<in>set e0. \<exists>ident. c = update_call key ident q)"
    by fastforce
  moreover from assms cu have "snd (POST key w (Some formData)) = tr0"
    by (cases r) (simp_all add: POST_def split: sum.splits)
  ultimately show ?thesis by simp
qed

lemma POST_calls_payload:
  assumes "c \<in> set (snd (POST key w request))"
  shows "\<exists>formData q. request = Some formData \<and> form_contactPayload formData = Inr q \<and>
           payload c = JsonBody (JSON_stringify q)"
proof (cases request)
  case None
  with assms show ?thesis by (simp add: POST_def)
next
  case (Some formData)
  show ?thesis
  proof (cases "form_contactPayload formData")
    case (Inl e)
    with Some assms show ?thesis by (simp add: POST_def)
  next
    case (Inr q)
    from POST_trace [OF Inr, of key w] assms Some
    have "c = create_call key q \<or> (\<exists>ident. c = update_call key ident q)"
      by auto
    then have "payload c = JsonBody (JSON_stringify q)"
      by (auto simp: create_call_def update_call_def)
    with Some Inr show ?thesis by simp
  qed
qed

subsection \<open>The runs of the handler with the delayed update\<close>


lemma handler2_run:
  assumes "req_method req = ''POST''" and "key \<noteq> None" and "key \<noteq> Some []"
    and "contactPayload2 (req_body req) = Inr p"
    and "create_or_update2 key w p (customPayload (req_body req)) = (r, tr0)"
  shows "handler2 key w req =
    (case r of
       Inl e \<Rightarrow> (error_response, tr0)
     | Inr cid \<Rightarrow>
         (if fst (photo_phase2 key w (req_body req) cid tr0) = None then success_response cid
          else error_response,
          snd (photo_phase2 key w (req_body req) cid tr0)))"
  using assms
  by (cases "photo_phase2 key w (req_body req) (projr r) tr0")
    (auto simp: handler2_def split: sum.splits option.splits)




subsection \<open>The example request\<close>

lemma example_payloads:
  "\<exists>p. contactPayload (req_body example_request) = Inr p"
  "\<exists>p. contactPayload2 (req_body example_request) = Inr p"
  "req_method example_request = ''POST''"
  by (simp_all add: contactPayload_def contactPayload2_def nameParts_def example_request_def
      example_body_def js_or_def planningStage_def field_def array_join_def)

subsection \<open>Responses\<close>

lemma example_world_crm:
  "is_create c \<Longrightarrow> crm (example_world a b) tr c = a"
  "is_update c \<Longrightarrow> crm (example_world a b) tr c = b"
  by (auto simp: example_world_def is_create_def is_update_def)


lemma handler_response:
  "fst (handler key w req) = method_not_allowed \<or> fst (handler key w req) = error_response \<or>
   (\<exists>cid. fst (handler key w req) = success_response cid)"
  by (auto simp: handler_def split: sum.splits prod.splits)

lemma handler2_response:
  "fst (handler2 key w req) = method_not_allowed \<or>
   fst (handler2 key w req) = config_error_response \<and> (key = None \<or> key = Some []) \<or>
   fst (handler2 key w req) = error_response \<and> key \<noteq> None \<and> key \<noteq> Some [] \<or>
   (\<exists>cid. fst (handler2 key w req) = success_response cid)"
  by (auto simp: handler2_def split: sum.splits prod.splits option.splits)

lemma response_status:
  "status method_not_allowed = 405" "status error_response = 500"
  "status config_error_response = 500" "status (success_response cid) = 200"
  by (simp_all add: method_not_allowed_def error_response_def config_error_response_def
      success_response_def)

lemma rejected_create:
  "fst (handler key (example_world Rejected b) example_request) = error_response"
  "fst (handler2 (Some ''k'') (example_world Rejected b) example_request) = error_response"
proof -
  obtain p where p: "contactPayload (req_body example_request) = Inr p"
    using example_payloads(1) by blast
  obtain p2 where p2: "contactPayload2 (req_body example_request) = Inr p2"
    using example_payloads(2) by blast
  from p show "fst (handler key (example_world Rejected b) example_request) = error_response"
    by (simp add: handler_def example_payloads(3) create_or_update_def fetch_def
        example_world_crm class_calls)
  from p2 show "fst (handler2 (Some ''k'') (example_world Rejected b) example_request) = error_response"
    by (simp add: handler2_def example_payloads(3) create_or_update2_def fetch_def
        example_world_crm class_calls)
qed

lemma missing_contact_name:
  "fst (handler key w \<lparr>req_method = ''POST'', req_body = JNull\<rparr>) = error_response"
  by (simp add: handler_def contactPayload_def nameParts_def)

subsection \<open>Create, conflict and update\<close>

lemma match_existing_id_Some:
  "match_existing_id m = Some ident \<Longrightarrow>
     ident \<noteq> [] \<and> (\<forall>c\<in>set ident. is_digit c) \<and>
     (\<exists>pre post. m = pre @ ''Existing ID: '' @ ident @ post \<and>
        (post = [] \<or> \<not> is_digit (hd post)))"
proof (induction m)
  case Nil
  then show ?case by simp
next
  case (Cons c cs)
  let ?m = "c # cs"
  show ?case
  proof (cases "take 13 ?m = ''Existing ID: '' \<and> takeWhile is_digit (drop 13 ?m) \<noteq> []")
    case True
    with Cons.prems have id: "ident = takeWhile is_digit (drop 13 ?m)" by simp
    have "?m = take 13 ?m @ drop 13 ?m" by (simp only: append_take_drop_id)
    also have "drop 13 ?m = ident @ dropWhile is_digit (drop 13 ?m)"
      by (simp only: id takeWhile_dropWhile_id)
    finally have "?m = [] @ ''Existing ID: '' @ ident @ dropWhile is_digit (drop 13 ?m)"
      using True by simp
    moreover have "dropWhile is_digit (drop 13 ?m) = [] \<or>
        \<not> is_digit (hd (dropWhile is_digit (drop 13 ?m)))"
      using hd_dropWhile [of is_digit "drop 13 ?m"] by blast
    moreover from True id have "ident \<noteq> []" by simp
    moreover from id have "\<forall>c\<in>set ident. is_digit c"
      by (auto dest: set_takeWhileD)
    ultimately show ?thesis by blast
  next
    case False
    with Cons.prems have "match_existing_id cs = Some ident" by (simp split: if_splits)
    from Cons.IH [OF this] obtain pre post where
      "ident \<noteq> []" "\<forall>c\<in>set ident. is_digit c"
      "cs = pre @ ''Existing ID: '' @ ident @ post" "post = [] \<or> \<not> is_digit (hd post)"
      by blast
    then have "?m = (c # pre) @ ''Existing ID: '' @ ident @ post" by simp
    with \<open>ident \<noteq> []\<close> \<open>\<forall>c\<in>set ident. is_digit c\<close> \<open>post = [] \<or> \<not> is_digit (hd post)\<close>
    show ?thesis by blast
  qed
qed

lemma example_messages:
  "match_existing_id ''Contact already exists. Existing ID: 123'' = Some ''123''"
  "match_existing_id ''Contact already exists'' = None"
  by (simp_all add: is_digit_def)

lemma conflict_unresolved:
  assumes "req_method req = ''POST''" and "contactPayload (req_body req) = Inr p"
    and "crm w [] (create_call key p) = Response 409 (Some e)"
    and "get_prop e ''message'' = Inr (JStr m)" and "match_existing_id m = None"
  shows "handler key w req = (success_response JUndefined, [create_call key p])"
  using assms
  by (simp add: handler_def create_or_update_def fetch_def existingContactId_def photo_phase_falsy)

lemma conflict_unresolved_others:
  "req_method req = ''POST'' \<and> key \<noteq> None \<and> key \<noteq> Some [] \<and>
   contactPayload2 (req_body req) = Inr p \<and>
   crm w [] (create_call2 key p) = Response 409 (Some e) \<and>
   get_prop e ''message'' = Inr (JStr m) \<and> match_existing_id m = None \<Longrightarrow>
     handler2 key w req = (success_response JUndefined, [create_call2 key p])"
  "form_contactPayload formData = Inr q \<and>
   crm w [] (create_call key q) = Response 409 (Some e) \<and>
   get_prop e ''message'' = Inr (JStr m) \<and> match_existing_id m = None \<Longrightarrow>
     POST key w (Some formData) = (success_response JUndefined, [create_call key q])"
  by (auto simp: handler2_def POST_def create_or_update_def create_or_update2_def fetch_def
      existingContactId_def photo_phase2_none)

lemma new_contact:
  assumes "req_method req = ''POST''" and "contactPayload (req_body req) = Inr p"
    and "crm w [] (create_call key p) = Response st (Some d)" and "ok st"
    and "get_prop d ''id'' = Inr cid"
  shows "fst (handler key w req) = success_response cid \<and>
         filter is_create (snd (handler key w req)) = [create_call key p] \<and>
         filter is_update (snd (handler key w req)) = []"
proof -
  from assms(4) have "st \<noteq> 409" by (auto simp: ok_def)
  with assms have "create_or_update key w p = (Inr cid, [create_call key p])"
    by (simp add: create_or_update_def fetch_def json_id_def)
  with assms(1,2) show ?thesis
    by (simp add: handler_def photo_phase_contact_calls class_calls)
qed

text \<open>When every identifier the uploads return can be converted to a string, the photo
  block of the second handler does not throw and makes the calls of the first.\<close>

lemma photo_phase2_renders:
  assumes "renders cid"
    and "\<forall>photos. field formData ''photos'' = JArr photos \<longrightarrow>
           (\<forall>v\<in>set (upload_results key w photos 0 tr). truthy v \<longrightarrow> renders v)"
  shows "photo_phase2 key w formData cid tr = (None, photo_phase key w formData cid tr)"
proof (cases "field formData ''photos''")
  case (JArr photos)
  with assms(2) have "\<forall>v\<in>set (upload_results key w photos 0 tr). truthy v \<longrightarrow> renders v"
    by simp
  from upload_photos2_renders [OF this, of "[]"] JArr assms(1) show ?thesis
    by (auto simp: photo_phase2_def photo_phase_def renders_def split: sum.splits prod.splits)
qed (simp_all add: photo_phase2_def photo_phase_def)

lemma new_contact2:
  assumes "req_method req = ''POST''" and "key \<noteq> None" and "key \<noteq> Some []"
    and "contactPayload2 (req_body req) = Inr p"
    and "crm w [] (create_call2 key p) = Response st (Some d)" and "ok st"
    and "get_prop d ''id'' = Inr cid"
  shows "filter is_create (snd (handler2 key w req)) = [create_call2 key p] \<and>
    (fst (handler2 key w req) = success_response cid \<or>
     fst (handler2 key w req) = error_response) \<and>
    (\<forall>e. to_str cid = Inl e \<longrightarrow>
       handler2 key w req = (error_response, [create_call2 key p])) \<and>
    (\<forall>s. to_str cid = Inr s \<longrightarrow>
       filter is_update (snd (handler2 key w req)) =
         [update_call key s (customPayload (req_body req))] \<and>
       (crm w [create_call2 key p] (update_call key s (customPayload (req_body req))) = Rejected
          \<longrightarrow> fst (handler2 key w req) = error_response) \<and>
       (crm w [create_call2 key p] (update_call key s (customPayload (req_body req))) \<noteq> Rejected \<and>
        (\<forall>photos. field (req_body req) ''photos'' = JArr photos \<longrightarrow>
           (\<forall>v\<in>set (upload_results key w photos 0
               [create_call2 key p, update_call key s (customPayload (req_body req))]).
              truthy v \<longrightarrow> renders v))
          \<longrightarrow> fst (handler2 key w req) = success_response cid))"
proof (cases "to_str cid")
  case (Inl e)
  from assms(6) have "st \<noteq> 409" by (auto simp: ok_def)
  with assms Inl have cu: "create_or_update2 key w p (customPayload (req_body req)) =
      (Inl e, [create_call2 key p])"
    by (simp add: create_or_update2_def custom_update_def fetch_def json_id_def)
  from handler2_run [OF assms(1-4) cu] Inl show ?thesis
    by (simp add: class_calls)
next
  case (Inr s)
  let ?u = "update_call key s (customPayload (req_body req))"
  let ?tr = "[create_call2 key p, ?u]"
  from assms(6) have "st \<noteq> 409" by (auto simp: ok_def)
  with assms Inr have cu: "create_or_update2 key w p (customPayload (req_body req)) =
      (case crm w [create_call2 key p] ?u of Rejected \<Rightarrow> Inl NetworkError | Response s b \<Rightarrow> Inr cid,
       ?tr)"
    by (simp add: create_or_update2_def custom_update_def fetch_def json_id_def
        split: fetch_result.splits)
  note run = handler2_run [OF assms(1-4) cu]
  show ?thesis
  proof (cases "crm w [create_call2 key p] ?u")
    case Rejected
    with run Inr show ?thesis
      by (simp add: class_calls)
  next
    case (Response s' b)
    have ok: "fst (handler2 key w req) = success_response cid"
      if "\<forall>photos. field (req_body req) ''photos'' = JArr photos \<longrightarrow>
           (\<forall>v\<in>set (upload_results key w photos 0 ?tr). truthy v \<longrightarrow> renders v)"
    proof -
      from Inr have "renders cid" by (simp add: renders_def)
      from photo_phase2_renders [OF this that] run Response show ?thesis by simp
    qed
    from run Response Inr have "filter is_create (snd (handler2 key w req)) = [create_call2 key p]"
      "filter is_update (snd (handler2 key w req)) = [?u]"
      "fst (handler2 key w req) = success_response cid \<or> fst (handler2 key w req) = error_response"
      by (simp_all add: photo_phase2_contact_calls class_calls)
    with ok Response Inr show ?thesis by simp
  qed
qed

text \<open>On a conflict with an identifier in the message, one update call follows the create
  call, whatever the CRM answers to it.\<close>

lemma conflict_calls:
  assumes "crm w [] (create_call key p) = Response 409 (Some e)"
    and "get_prop e ''message'' = Inr (JStr m)" and "match_existing_id m = Some ident"
  shows "\<exists>r. create_or_update key w p = (r, [create_call key p, update_call key ident p])"
  using assms
  by (cases "crm w [create_call key p] (update_call key ident p)")
    (simp_all add: create_or_update_def fetch_def existingContactId_def)

lemma conflict_one_update:
  assumes "req_method req = ''POST''" and "contactPayload (req_body req) = Inr p"
    and "crm w [] (create_call key p) = Response 409 (Some e)"
    and "get_prop e ''message'' = Inr (JStr m)" and "match_existing_id m = Some ident"
  shows "filter is_update (snd (handler key w req)) = [update_call key ident p] \<and>
         filter is_create (snd (handler key w req)) = [create_call key p]"
proof -
  from conflict_calls [OF assms(3-5)] obtain r where
    "create_or_update key w p = (r, [create_call key p, update_call key ident p])" by blast
  with assms(1,2) show ?thesis
    by (cases r) (simp_all add: handler_def photo_phase_contact_calls class_calls)
qed

lemma conflict_update_general:
  assumes "create_or_update key w p = (r, tr)"
    and "crm w [] (create_call key p) = Response 409 (Some e)"
    and "get_prop e ''message'' = Inr (JStr m)" and "match_existing_id m = Some ident"
    and "crm w [create_call key p] (update_call key ident p) = Response ust (Some u)"
    and "get_prop u ''id'' = Inr cid"
  shows "r = Inr cid \<and> tr = [create_call key p, update_call key ident p]"
  using assms
  by (simp add: create_or_update_def fetch_def existingContactId_def json_id_def)

text \<open>The status \<open>ust\<close> of the update response is not read.\<close>

lemma conflict_update_handler:
  assumes "req_method req = ''POST''" and "contactPayload (req_body req) = Inr p"
    and "crm w [] (create_call key p) = Response 409 (Some e)"
    and "get_prop e ''message'' = Inr (JStr m)" and "match_existing_id m = Some ident"
    and "crm w [create_call key p] (update_call key ident p) = Response ust (Some u)"
    and "get_prop u ''id'' = Inr cid"
  shows "fst (handler key w req) = success_response cid \<and>
         filter is_update (snd (handler key w req)) = [update_call key ident p] \<and>
         filter is_create (snd (handler key w req)) = [create_call key p]"
proof -
  obtain r tr where cu: "create_or_update key w p = (r, tr)"
    by (cases "create_or_update key w p")
  from conflict_update_general [OF cu assms(3-7)] cu assms(1,2) show ?thesis
    by (simp add: handler_def photo_phase_contact_calls class_calls)
qed

lemma conflict_update_POST:
  assumes "form_contactPayload formData = Inr p"
    and "crm w [] (create_call key p) = Response 409 (Some e)"
    and "get_prop e ''message'' = Inr (JStr m)" and "match_existing_id m = Some ident"
    and "crm w [create_call key p] (update_call key ident p) = Response ust (Some u)"
    and "get_prop u ''id'' = Inr cid"
  shows "POST key w (Some formData) =
           (if form_getAll formData ''photos'' \<noteq> [] \<and> truthy cid \<and> \<not> renders cid
            then error_response else success_response cid,
            [create_call key p, update_call key ident p])"
proof -
  obtain r tr where cu: "create_or_update key w p = (r, tr)"
    by (cases "create_or_update key w p")
  from conflict_update_general [OF cu assms(2-6)] cu assms(1) show ?thesis
    by (simp add: POST_def renders_def split: sum.splits)
qed

lemma example_answers:
  "created = Response 201 (Some (JObj [(''id'', JStr ''501'')]))"
  "get_prop (JObj [(''id'', JStr ''501'')]) ''id'' = Inr (JStr ''501'')"
  "updated = Response 200 (Some (JObj [(''id'', JStr ''123'')]))"
  "get_prop (JObj [(''id'', JStr ''123'')]) ''id'' = Inr (JStr ''123'')"
  "ok 201" "ok 200"
  by (simp_all add: created_def updated_def ok_def)

lemma example_conflicts:
  "\<exists>e. conflict = Response 409 (Some e) \<and>
     get_prop e ''message'' = Inr (JStr ''Contact already exists. Existing ID: 123'')"
  "\<exists>e. conflict_without_id = Response 409 (Some e) \<and>
     get_prop e ''message'' = Inr (JStr ''Contact already exists'')"
  "\<exists>u. update_refused = Response 400 (Some u) \<and> get_prop u ''id'' = Inr JUndefined"
  "\<exists>u. updated_elsewhere = Response 200 (Some u) \<and> get_prop u ''id'' = Inr (JStr ''456'')"
  by (simp_all add: conflict_def conflict_without_id_def update_refused_def updated_elsewhere_def)

lemma example_form_payload: "\<exists>q. form_contactPayload example_form = Inr q"
  by (simp add: form_contactPayload_def form_nameParts_def form_get_def example_form_def)

subsection \<open>Uploads\<close>

lemma uploadFile_no_data_url:
  "no_data_url fileData \<Longrightarrow> uploadFileToHubSpot key w tr fileData fileName = (JNull, tr)"
  by (cases fileData) (simp_all add: uploadFileToHubSpot_def js_split_no_sep)

lemma uploadFile_data_url:
  assumes "CHR '','' \<in> set s"
  shows "uploadFileToHubSpot key w tr (JStr s) fileName =
    (case crm w tr (upload_call key fileName (buffer_from_base64 w
            (takeWhile (\<lambda>c. c \<noteq> CHR '','') (drop 1 (dropWhile (\<lambda>c. c \<noteq> CHR '','') s))))) of
       Rejected \<Rightarrow> JNull
     | Response st b \<Rightarrow>
         if ok st then (case json_id b of Inl e \<Rightarrow> JNull | Inr v \<Rightarrow> v) else JNull,
     tr @ [upload_call key fileName (buffer_from_base64 w
            (takeWhile (\<lambda>c. c \<noteq> CHR '','') (drop 1 (dropWhile (\<lambda>c. c \<noteq> CHR '','') s))))])"
proof -
  from js_split_second [OF assms] obtain rest where
    "tl (js_split CHR '','' s) =
       takeWhile (\<lambda>c. c \<noteq> CHR '','') (drop 1 (dropWhile (\<lambda>c. c \<noteq> CHR '','') s)) # rest"
    by blast
  then show ?thesis
    by (simp add: uploadFileToHubSpot_def fetch_def drop_Suc
        split: fetch_result.splits sum.splits)
qed




lemma upload_photos_no_data_url:
  "\<forall>ph\<in>set photos. no_data_url ph \<Longrightarrow> upload_photos key w photos i ids tr = (ids, tr)"
  by (induction photos arbitrary: i) (simp_all add: uploadFile_no_data_url)

lemma upload_results_no_data_url:
  "no_data_url ph \<Longrightarrow>
     upload_results key w (ph # photos) i tr = JNull # upload_results key w photos (i + 1) tr"
  by (simp add: uploadFile_no_data_url)




lemma malformed_example:
  "req_method malformed_photo_request = ''POST''"
  "\<exists>p. contactPayload (req_body malformed_photo_request) = Inr p \<and>
     create_or_update (Some ''k'') (example_world created updated) p =
       (Inr (JStr ''501''), [create_call (Some ''k'') p])"
  "field (req_body malformed_photo_request) ''photos'' = JArr [JStr ''not-a-data-url'', JNum ''7'']"
  by (simp_all add: malformed_photo_request_def contactPayload_def nameParts_def js_or_def
      planningStage_def field_def create_or_update_def fetch_def example_world_crm class_calls
      example_answers json_id_def)

section \<open>Splitting the contact name\<close>

lemma handler_sent_names:
  assumes "req_method req = ''POST''"
    and "get_prop (req_body req) ''contactName'' = Inr (JStr s)"
  shows "(\<forall>c\<in>set (snd (handler key w req)). is_create c \<or> is_update c \<longrightarrow>
       sent_property c ''firstname'' = JStr (takeWhile (\<lambda>x. x \<noteq> CHR '' '') (trim s)) \<and>
       sent_property c ''lastname'' = JStr (drop 1 (dropWhile (\<lambda>x. x \<noteq> CHR '' '') (trim s)))) \<and>
    (\<forall>ps. planningStage (req_body req) = Inr ps \<longrightarrow>
       snd (handler key w req) \<noteq> [] \<and> is_create (hd (snd (handler key w req)))) \<and>
    (\<forall>e. planningStage (req_body req) = Inl e \<longrightarrow> handler key w req = (error_response, []))"
proof (cases "planningStage (req_body req)")
  case (Inl e)
  with assms have "handler key w req = (error_response, [])"
    by (simp add: handler_def contactPayload_def nameParts_string)
  with Inl show ?thesis by simp
next
  case (Inr ps)
  let ?parts = "js_split CHR '' '' (trim s)"
  let ?props = "basicProperties (req_body req) ?parts @ customProperties (req_body req)"
  let ?p = "JObj [(''properties'', JObj ?props)]"
  from assms(2) Inr have cp: "contactPayload (req_body req) = Inr ?p"
    by (simp add: contactPayload_def nameParts_string)
  from handler_trace [OF assms(1) cp, of key w] have
    "snd (handler key w req) \<noteq> [] \<and> is_create (hd (snd (handler key w req)))"
    by (auto simp: class_calls)
  moreover have "sent_property c ''firstname'' = JStr (takeWhile (\<lambda>x. x \<noteq> CHR '' '') (trim s)) \<and>
       sent_property c ''lastname'' = JStr (drop 1 (dropWhile (\<lambda>x. x \<noteq> CHR '' '') (trim s)))"
    if "c \<in> set (snd (handler key w req))" and "is_create c \<or> is_update c" for c
  proof -
    from handler_contact_payload [OF assms(1) cp that]
    have pl: "payload c = JsonBody (JSON_stringify ?p)" .
    have f: "map_of ?props ''firstname'' = Some (JStr (firstname ?parts))"
      by (simp add: basicProperties_def)
    have l: "map_of ?props ''lastname'' = Some (JStr (lastname ?parts))"
      by (simp add: basicProperties_def)
    show ?thesis
      using sent_property_json [OF pl distinct_props(1), of "''firstname''"]
        sent_property_json [OF pl distinct_props(1), of "''lastname''"]
      by (simp only: f l option.case JSON_stringify.simps firstname_split lastname_split)
  qed
  ultimately show ?thesis using Inr by simp
qed

text \<open>
  Claim C8, as amended. The given name sent to the CRM is the part of the contact name
  before its first space, and the family name is the rest after that space (empty without
  a space), both taken of the contact name with the white space at its two ends removed:
  the handler calls \<^verbatim>\<open>trim()\<close> before it splits. This holds of every contact call of a
  request whose contact name is a string: the create call, which is made whenever the
  planning stage is assigned without a throw, and the update on a conflict. When the join
  of the planning stage throws, the handler answers 500 and sends nothing.
\<close>

theorem name_split_after_trim:
  assumes "req_method req = ''POST''"
    and "get_prop (req_body req) ''contactName'' = Inr (JStr s)"
  shows "(\<forall>c\<in>set (snd (handler key w req)). is_create c \<or> is_update c \<longrightarrow>
       sent_property c ''firstname'' = JStr (takeWhile (\<lambda>x. x \<noteq> CHR '' '') (trim s)) \<and>
       sent_property c ''lastname'' = JStr (drop 1 (dropWhile (\<lambda>x. x \<noteq> CHR '' '') (trim s)))) \<and>
    (\<forall>ps. planningStage (req_body req) = Inr ps \<longrightarrow>
       snd (handler key w req) \<noteq> [] \<and> is_create (hd (snd (handler key w req)))) \<and>
    (\<forall>e. planningStage (req_body req) = Inl e \<longrightarrow> handler key w req = (error_response, []))"
  using assms by (rule handler_sent_names)

lemma trim_padded: "trim '' Jane Doe'' = ''Jane Doe''"
  by (simp add: trim_def is_space_def)

lemma padded_name_facts:
  "req_method padded_name_request = ''POST''"
  "get_prop (req_body padded_name_request) ''contactName'' = Inr (JStr '' Jane Doe'')"
  "planningStage (req_body padded_name_request) = Inr (JStr [])"
  by (simp_all add: padded_name_request_def planningStage_def field_def js_or_def)

text \<open>The contact name \<^verbatim>\<open>" Jane Doe"\<close>, with a space in front, is sent as \<^verbatim>\<open>Jane\<close> and
  \<^verbatim>\<open>Doe\<close>.\<close>

theorem name_split_after_trim_witness:
  "is_create (hd (snd (handler (Some ''k'') (example_world created updated) padded_name_request))) \<and>
   sent_property (hd (snd (handler (Some ''k'') (example_world created updated) padded_name_request)))
     ''firstname'' = JStr ''Jane'' \<and>
   sent_property (hd (snd (handler (Some ''k'') (example_world created updated) padded_name_request)))
     ''lastname'' = JStr ''Doe''"
proof -
  let ?tr = "snd (handler (Some ''k'') (example_world created updated) padded_name_request)"
  note t = name_split_after_trim [OF padded_name_facts(1,2), of "Some ''k''"
      "example_world created updated"]
  from t padded_name_facts(3) have h: "?tr \<noteq> []" "is_create (hd ?tr)" by blast+
  then have "hd ?tr \<in> set ?tr" by simp
  with t h(2) have
    "sent_property (hd ?tr) ''firstname'' =
       JStr (takeWhile (\<lambda>x. x \<noteq> CHR '' '') (trim '' Jane Doe'')) \<and>
     sent_property (hd ?tr) ''lastname'' =
       JStr (drop 1 (dropWhile (\<lambda>x. x \<noteq> CHR '' '') (trim '' Jane Doe'')))"
    by blast
  with h(2) show ?thesis
    by (simp add: trim_padded)
qed

text \<open>Claim C8 as stated fails there: the text before the first space of \<^verbatim>\<open>" Jane Doe"\<close>
  is empty, and the given name sent is \<^verbatim>\<open>Jane\<close>.\<close>

theorem name_split_counterexample:
  "is_create (hd (snd (handler (Some ''k'') (example_world created updated) padded_name_request))) \<and>
   sent_property (hd (snd (handler (Some ''k'') (example_world created updated) padded_name_request)))
     ''firstname'' = JStr ''Jane'' \<and>
   takeWhile (\<lambda>x. x \<noteq> CHR '' '') '' Jane Doe'' = []"
proof -
  let ?tr = "snd (handler (Some ''k'') (example_world created updated) padded_name_request)"
  note t = handler_sent_names [OF padded_name_facts(1,2), of "Some ''k''"
      "example_world created updated"]
  from t padded_name_facts(3) have h: "?tr \<noteq> []" "is_create (hd ?tr)" by blast+
  then have "hd ?tr \<in> set ?tr" by simp
  with t h(2) have
    "sent_property (hd ?tr) ''firstname'' =
       JStr (takeWhile (\<lambda>x. x \<noteq> CHR '' '') (trim '' Jane Doe''))"
    by blast
  with h(2) show ?thesis
    by (simp add: trim_padded)
qed

section \<open>The planning stage\<close>

lemma handler_sent_planning_stage:
  assumes "c \<in> set (snd (handler key w req))" and "is_create c \<or> is_update c"
  shows "\<exists>ps. planningStage (req_body req) = Inr ps \<and>
           sent_property c ''wearthy_planning_stage'' = JSON_stringify (js_or ps (JStr []))"
proof -
  from handler_calls_payload [OF assms] obtain p where
    p: "contactPayload (req_body req) = Inr p" "payload c = JsonBody (JSON_stringify p)"
    by blast
  from contactPayload_planningStage(1) [OF p(1)] obtain ps where
    ps: "planningStage (req_body req) = Inr ps" by blast
  from contactPayload_props [OF p(1)] obtain parts where
    parts: "p = JObj [(''properties'',
        JObj (basicProperties (req_body req) parts @ customProperties (req_body req)))]"
    by blast
  have m: "map_of (basicProperties (req_body req) parts @ customProperties (req_body req))
      ''wearthy_planning_stage'' = Some (js_or (planningStage_value (req_body req)) (JStr []))"
    by (simp add: basicProperties_def customProperties_def)
  from p(2) parts sent_property_json [OF _ distinct_props(1), of c "req_body req" parts]
  have "sent_property c ''wearthy_planning_stage'' =
      JSON_stringify (js_or (planningStage_value (req_body req)) (JStr []))"
    by (simp only: m option.case)
  with ps show ?thesis
    by (simp add: planningStage_value)
qed

lemma handler_sent_array:
  assumes "c \<in> set (snd (handler key w req))" and "is_create c \<or> is_update c"
    and "field (req_body req) ''phase[]'' = JArr xs"
  shows "\<exists>ss. join_elems xs = Inr ss \<and>
           sent_property c ''wearthy_planning_stage'' = JStr (join '';'' ss)"
proof -
  from handler_sent_planning_stage [OF assms(1,2)] obtain ps where
    ps: "planningStage (req_body req) = Inr ps"
      "sent_property c ''wearthy_planning_stage'' = JSON_stringify (js_or ps (JStr []))"
    by blast
  show ?thesis
  proof (cases "join_elems xs")
    case (Inl e)
    with planningStage_array(2) [OF assms(3)] ps(1) show ?thesis by simp
  next
    case (Inr ss)
    with planningStage_array(1) [OF assms(3)] ps show ?thesis
      by (simp add: js_or_def)
  qed
qed

lemma handler_sent_single:
  assumes "c \<in> set (snd (handler key w req))" and "is_create c \<or> is_update c"
    and "\<not> isArray (field (req_body req) ''phase[]'')"
  shows "sent_property c ''wearthy_planning_stage'' =
           JSON_stringify (js_or (field (req_body req) ''phase[]'') (JStr []))"
proof -
  from handler_sent_planning_stage [OF assms(1,2)] obtain ps where
    ps: "planningStage (req_body req) = Inr ps"
      "sent_property c ''wearthy_planning_stage'' = JSON_stringify (js_or ps (JStr []))"
    by blast
  with planningStage_single [OF assms(3)] show ?thesis
    by (auto simp: js_or_def)
qed

lemma handler_join_throws:
  assumes "req_method req = ''POST''" and "field (req_body req) ''phase[]'' = JArr xs"
    and "join_elems xs = Inl e"
  shows "handler key w req = (error_response, [])"
proof -
  from planningStage_array(2) [OF assms(2,3)] contactPayload_planningStage(3)
  obtain e' where "contactPayload (req_body req) = Inl e'" by blast
  with assms(1) show ?thesis
    by (simp add: handler_def)
qed

lemma POST_sent_planning_stage:
  assumes "c \<in> set (snd (POST key w (Some formData)))"
  shows "sent_property c ''wearthy_planning_stage'' =
           JStr (join '';'' (map form_str (form_getAll formData ''phase[]'')))"
proof -
  from POST_calls_payload [OF assms] obtain q where
    q: "form_contactPayload formData = Inr q" "payload c = JsonBody (JSON_stringify q)"
    by auto
  from q(1) obtain props where
    props: "q = JObj [(''properties'', JObj props)]" "distinct (map fst props)"
    "map_of props ''wearthy_planning_stage'' = Some (js_or (form_planningStage formData) (JStr []))"
    by (auto simp: form_contactPayload_def split: sum.splits)
  have "js_or (form_planningStage formData) (JStr []) = form_planningStage formData"
    by (simp add: js_or_def form_planningStage_def)
  with q(2) props sent_property_json [of c props "''wearthy_planning_stage''"]
  show ?thesis
    by (simp add: form_planningStage_def)
qed

lemma sent_planning_stage:
  "(\<forall>c\<in>set (snd (handler key w req)). is_create c \<or> is_update c \<longrightarrow>
      (\<forall>xs. field (req_body req) ''phase[]'' = JArr xs \<longrightarrow>
         (\<exists>ss. join_elems xs = Inr ss \<and>
            sent_property c ''wearthy_planning_stage'' = JStr (join '';'' ss))) \<and>
      (\<forall>vs. field (req_body req) ''phase[]'' = JArr (map JStr vs) \<longrightarrow>
         sent_property c ''wearthy_planning_stage'' = JStr (join '';'' vs)) \<and>
      (\<not> isArray (field (req_body req) ''phase[]'') \<and> truthy (field (req_body req) ''phase[]'') \<longrightarrow>
         sent_property c ''wearthy_planning_stage'' =
           JSON_stringify (field (req_body req) ''phase[]'')) \<and>
      (\<forall>v. field (req_body req) ''phase[]'' = JStr v \<longrightarrow>
         sent_property c ''wearthy_planning_stage'' = JStr v) \<and>
      (\<not> truthy (field (req_body req) ''phase[]'') \<longrightarrow>
         sent_property c ''wearthy_planning_stage'' = JStr [])) \<and>
   (\<forall>xs e. req_method req = ''POST'' \<and> field (req_body req) ''phase[]'' = JArr xs \<and>
        join_elems xs = Inl e \<longrightarrow>
      handler key w req = (error_response, [])) \<and>
   (\<forall>c\<in>set (snd (POST key w (Some formData))).
      sent_property c ''wearthy_planning_stage'' =
        JStr (join '';'' (map form_str (form_getAll formData ''phase[]''))) \<and>
      (\<forall>vs. form_getAll formData ''phase[]'' = map FText vs \<longrightarrow>
        sent_property c ''wearthy_planning_stage'' = JStr (join '';'' vs))) \<and>
   (req_method req = ''POST'' \<and> contactPayload (req_body req) = Inr p \<longrightarrow>
      snd (handler key w req) \<noteq> [] \<and> is_create (hd (snd (handler key w req)))) \<and>
   (form_contactPayload formData = Inr q \<longrightarrow>
      snd (POST key w (Some formData)) \<noteq> [] \<and> is_create (hd (snd (POST key w (Some formData)))))"
proof -
  have 1: "\<exists>ss. join_elems xs = Inr ss \<and>
      sent_property c ''wearthy_planning_stage'' = JStr (join '';'' ss)"
    if "c \<in> set (snd (handler key w req))" "is_create c \<or> is_update c"
      "field (req_body req) ''phase[]'' = JArr xs" for c xs
    using that by (rule handler_sent_array)
  have 2: "sent_property c ''wearthy_planning_stage'' = JStr (join '';'' vs)"
    if "c \<in> set (snd (handler key w req))" "is_create c \<or> is_update c"
      "field (req_body req) ''phase[]'' = JArr (map JStr vs)" for c vs
    using handler_sent_array [OF that] by (simp add: join_elems_strings)
  have 3: "sent_property c ''wearthy_planning_stage'' =
      JSON_stringify (js_or (field (req_body req) ''phase[]'') (JStr []))"
    if "c \<in> set (snd (handler key w req))" "is_create c \<or> is_update c"
      "\<not> isArray (field (req_body req) ''phase[]'')" for c
    using that by (rule handler_sent_single)
  have 4: "\<not> isArray v" if "\<not> truthy v" for v
    using that by (cases v) simp_all
  have 5: "sent_property c ''wearthy_planning_stage'' =
        JStr (join '';'' (map form_str (form_getAll formData ''phase[]''))) \<and>
      (\<forall>vs. form_getAll formData ''phase[]'' = map FText vs \<longrightarrow>
        sent_property c ''wearthy_planning_stage'' = JStr (join '';'' vs))"
    if "c \<in> set (snd (POST key w (Some formData)))" for c
    using that by (simp add: POST_sent_planning_stage comp_def)
  have 6: "snd (handler key w req) \<noteq> [] \<and> is_create (hd (snd (handler key w req)))"
    if "req_method req = ''POST''" "contactPayload (req_body req) = Inr p"
    using handler_trace [OF that, of key w] by (auto simp: class_calls)
  have 7: "snd (POST key w (Some formData)) \<noteq> [] \<and>
      is_create (hd (snd (POST key w (Some formData))))"
    if "form_contactPayload formData = Inr q"
    using POST_trace [OF that, of key w] by (auto simp: class_calls)
  show ?thesis
  proof (intro conjI ballI impI allI)
    fix c xs
    assume "c \<in> set (snd (handler key w req))" "is_create c \<or> is_update c"
      "field (req_body req) ''phase[]'' = JArr xs"
    then show "\<exists>ss. join_elems xs = Inr ss \<and>
        sent_property c ''wearthy_planning_stage'' = JStr (join '';'' ss)"
      by (rule 1)
  next
    fix c vs
    assume "c \<in> set (snd (handler key w req))" "is_create c \<or> is_update c"
      "field (req_body req) ''phase[]'' = JArr (map JStr vs)"
    then show "sent_property c ''wearthy_planning_stage'' = JStr (join '';'' vs)"
      by (rule 2)
  next
    fix c
    assume "c \<in> set (snd (handler key w req))" "is_create c \<or> is_update c"
      "\<not> isArray (field (req_body req) ''phase[]'') \<and> truthy (field (req_body req) ''phase[]'')"
    then show "sent_property c ''wearthy_planning_stage'' =
        JSON_stringify (field (req_body req) ''phase[]'')"
      using 3 [of c] by (simp add: js_or_def)
  next
    fix c v
    assume "c \<in> set (snd (handler key w req))" "is_create c \<or> is_update c"
      "field (req_body req) ''phase[]'' = JStr v"
    then show "sent_property c ''wearthy_planning_stage'' = JStr v"
      using 3 [of c] by (simp add: js_or_def)
  next
    fix c
    assume "c \<in> set (snd (handler key w req))" "is_create c \<or> is_update c"
      "\<not> truthy (field (req_body req) ''phase[]'')"
    then show "sent_property c ''wearthy_planning_stage'' = JStr []"
      using 3 [of c] 4 by (simp add: js_or_def)
  next
    fix xs e
    assume "req_method req = ''POST'' \<and> field (req_body req) ''phase[]'' = JArr xs \<and>
        join_elems xs = Inl e"
    then show "handler key w req = (error_response, [])"
      using handler_join_throws by blast
  next
    fix c
    assume "c \<in> set (snd (POST key w (Some formData)))"
    then show "sent_property c ''wearthy_planning_stage'' =
        JStr (join '';'' (map form_str (form_getAll formData ''phase[]'')))"
      using 5 by blast
  next
    fix c vs
    assume "c \<in> set (snd (POST key w (Some formData)))"
      "form_getAll formData ''phase[]'' = map FText vs"
    then show "sent_property c ''wearthy_planning_stage'' = JStr (join '';'' vs)"
      using 5 by blast
  next
    assume "req_method req = ''POST'' \<and> contactPayload (req_body req) = Inr p"
    then show "snd (handler key w req) \<noteq> []" "is_create (hd (snd (handler key w req)))"
      using 6 by blast+
  next
    assume "form_contactPayload formData = Inr q"
    then show "snd (POST key w (Some formData)) \<noteq> []"
      "is_create (hd (snd (POST key w (Some formData))))"
      using 7 by blast+
  qed
qed

text \<open>
  Claim C7, as amended. In every contact call of the first handler (the create call and
  the update on a conflict), the planning-stage property is:
  \<^item> when the body gives \<^verbatim>\<open>phase[]\<close> as an array, its elements converted to strings (a
    \<^verbatim>\<open>null\<close> element to the empty string) and joined with \<^verbatim>\<open>;\<close>, so an array of strings
    is sent as those strings joined with \<^verbatim>\<open>;\<close>;
  \<^item> when the body gives a single value that is truthy (a non-empty string, a number
    other than 0, \<^verbatim>\<open>true\<close>, an object), that value unchanged;
  \<^item> the empty string when the key is absent, and also when the single value is falsy
    (\<^verbatim>\<open>0\<close>, \<^verbatim>\<open>false\<close>, \<^verbatim>\<open>null\<close>, the empty string): \<^verbatim>\<open>formData['phase[]'] || ''\<close>.

  When an element of the array cannot be converted to a string, the join throws and the
  handler answers 500 without any call. In the form-data route the property is the
  \<^verbatim>\<open>phase[]\<close> entries as strings joined with \<^verbatim>\<open>;\<close> (one value is itself, none is the
  empty string). The create call is made whenever the payload can be built.
\<close>

theorem planning_stage_normalised:
  "(\<forall>c\<in>set (snd (handler key w req)). is_create c \<or> is_update c \<longrightarrow>
      (\<forall>xs. field (req_body req) ''phase[]'' = JArr xs \<longrightarrow>
         (\<exists>ss. join_elems xs = Inr ss \<and>
            sent_property c ''wearthy_planning_stage'' = JStr (join '';'' ss))) \<and>
      (\<forall>vs. field (req_body req) ''phase[]'' = JArr (map JStr vs) \<longrightarrow>
         sent_property c ''wearthy_planning_stage'' = JStr (join '';'' vs)) \<and>
      (\<not> isArray (field (req_body req) ''phase[]'') \<and> truthy (field (req_body req) ''phase[]'') \<longrightarrow>
         sent_property c ''wearthy_planning_stage'' =
           JSON_stringify (field (req_body req) ''phase[]'')) \<and>
      (\<forall>v. field (req_body req) ''phase[]'' = JStr v \<longrightarrow>
         sent_property c ''wearthy_planning_stage'' = JStr v) \<and>
      (\<not> truthy (field (req_body req) ''phase[]'') \<longrightarrow>
         sent_property c ''wearthy_planning_stage'' = JStr [])) \<and>
   (\<forall>xs e. req_method req = ''POST'' \<and> field (req_body req) ''phase[]'' = JArr xs \<and>
        join_elems xs = Inl e \<longrightarrow>
      handler key w req = (error_response, [])) \<and>
   (\<forall>c\<in>set (snd (POST key w (Some formData))).
      sent_property c ''wearthy_planning_stage'' =
        JStr (join '';'' (map form_str (form_getAll formData ''phase[]''))) \<and>
      (\<forall>vs. form_getAll formData ''phase[]'' = map FText vs \<longrightarrow>
        sent_property c ''wearthy_planning_stage'' = JStr (join '';'' vs))) \<and>
   (req_method req = ''POST'' \<and> contactPayload (req_body req) = Inr p \<longrightarrow>
      snd (handler key w req) \<noteq> [] \<and> is_create (hd (snd (handler key w req)))) \<and>
   (form_contactPayload formData = Inr q \<longrightarrow>
      snd (POST key w (Some formData)) \<noteq> [] \<and> is_create (hd (snd (POST key w (Some formData)))))"
  by (rule sent_planning_stage)

lemma phase_request_facts:
  "req_method (phase_request v) = ''POST''"
  "field (req_body (phase_request v)) ''phase[]'' = v"
  "planningStage (req_body (phase_request v)) = Inr ps \<Longrightarrow>
     \<exists>p. contactPayload (req_body (phase_request v)) = Inr p"
  by (simp_all add: phase_request_def field_def contactPayload_def nameParts_def js_or_def)

lemma phase_examples:
  "planningStage (req_body (phase_request (JNum ''5''))) = Inr (JNum ''5'')"
  "planningStage (req_body (phase_request (JNum ''0''))) = Inr (JStr [])"
  "planningStage (req_body (phase_request (JBool True))) = Inr (JBool True)"
  "join_elems [JStr ''exploring'', JObj [(''toString'', JStr ''f'')]] = Inl TypeError"
  "join_elems [JStr ''exploring'', JNull, JNum ''5''] = Inr [''exploring'', [], ''5'']"
  "planningStage (req_body (phase_request (JArr [JStr ''exploring'', JNull, JNum ''5'']))) =
     Inr (JStr ''exploring;;5'')"
  by (simp_all add: phase_request_def planningStage_def field_def js_or_def array_join_def)

text \<open>The array \<^verbatim>\<open>["exploring", "preparing-next-budget"]\<close> is sent as
  \<^verbatim>\<open>exploring;preparing-next-budget\<close> by both routes, the array
  \<^verbatim>\<open>["exploring", null, 5]\<close> as \<^verbatim>\<open>exploring;;5\<close>, the single values \<^verbatim>\<open>5\<close> and \<^verbatim>\<open>true\<close>
  as themselves, the single value \<^verbatim>\<open>0\<close> as the empty string, and so does a body without
  the key; an array with an element that has a \<^verbatim>\<open>toString\<close> property gets the 500 and no
  call.\<close>

theorem planning_stage_normalised_witness:
  "sent_property (hd (snd (handler (Some ''k'') (example_world created updated) example_request)))
     ''wearthy_planning_stage'' = JStr ''exploring;preparing-next-budget'' \<and>
   sent_property (hd (snd (handler (Some ''k'') (example_world created updated)
       (phase_request (JArr [JStr ''exploring'', JNull, JNum ''5''])))))
     ''wearthy_planning_stage'' = JStr ''exploring;;5'' \<and>
   sent_property (hd (snd (handler (Some ''k'') (example_world created updated)
       (phase_request (JNum ''5'')))))
     ''wearthy_planning_stage'' = JNum ''5'' \<and>
   sent_property (hd (snd (handler (Some ''k'') (example_world created updated)
       (phase_request (JBool True)))))
     ''wearthy_planning_stage'' = JBool True \<and>
   sent_property (hd (snd (handler (Some ''k'') (example_world created updated)
       (phase_request (JStr ''exploring'')))))
     ''wearthy_planning_stage'' = JStr ''exploring'' \<and>
   sent_property (hd (snd (handler (Some ''k'') (example_world created updated)
       (phase_request (JNum ''0'')))))
     ''wearthy_planning_stage'' = JStr [] \<and>
   sent_property (hd (snd (handler (Some ''k'') (example_world created updated) padded_name_request)))
     ''wearthy_planning_stage'' = JStr [] \<and>
   handler (Some ''k'') (example_world created updated)
       (phase_request (JArr [JStr ''exploring'', JObj [(''toString'', JStr ''f'')]])) =
     (error_response, []) \<and>
   sent_property (hd (snd (POST (Some ''k'') (example_world created updated) (Some example_form))))
     ''wearthy_planning_stage'' = JStr ''exploring;preparing-next-budget''"
proof -
  let ?w = "example_world created updated"
  let ?mixed = "phase_request (JArr [JStr ''exploring'', JNull, JNum ''5''])"
  let ?five = "phase_request (JNum ''5'')"
  let ?true = "phase_request (JBool True)"
  let ?one = "phase_request (JStr ''exploring'')"
  let ?zero = "phase_request (JNum ''0'')"
  let ?bad = "phase_request (JArr [JStr ''exploring'', JObj [(''toString'', JStr ''f'')]])"
  obtain p where p: "contactPayload (req_body example_request) = Inr p"
    by (simp add: contactPayload_def nameParts_def example_request_def example_body_def js_or_def
        planningStage_def field_def array_join_def)
  obtain p' where p': "contactPayload (req_body padded_name_request) = Inr p'"
    by (simp add: contactPayload_def nameParts_def padded_name_request_def js_or_def
        planningStage_def field_def)
  obtain pm where pm: "contactPayload (req_body ?mixed) = Inr pm"
    using phase_request_facts(3) [OF phase_examples(6)] by blast
  obtain p5 where p5: "contactPayload (req_body ?five) = Inr p5"
    using phase_request_facts(3) [OF phase_examples(1)] by blast
  obtain pt where pt: "contactPayload (req_body ?true) = Inr pt"
    using phase_request_facts(3) [OF phase_examples(3)] by blast
  obtain p1 where p1: "contactPayload (req_body ?one) = Inr p1"
    by (simp add: contactPayload_def nameParts_def phase_request_def js_or_def
        planningStage_def field_def)
  obtain p0 where p0: "contactPayload (req_body ?zero) = Inr p0"
    using phase_request_facts(3) [OF phase_examples(2)] by blast
  obtain q where q: "form_contactPayload example_form = Inr q"
    by (simp add: form_contactPayload_def form_nameParts_def form_get_def example_form_def)
  have m: "req_method example_request = ''POST''" "req_method padded_name_request = ''POST''"
    by (simp_all add: example_request_def padded_name_request_def)
  have f: "field (req_body example_request) ''phase[]'' =
      JArr (map JStr [''exploring'', ''preparing-next-budget''])"
    by (simp add: example_request_def example_body_def field_def)
  have f': "field (req_body padded_name_request) ''phase[]'' = JUndefined"
    by (simp add: padded_name_request_def field_def)
  have g: "form_getAll example_form ''phase[]'' = map FText [''exploring'', ''preparing-next-budget'']"
    by (simp add: form_getAll_def example_form_def)
  note a = planning_stage_normalised [of "Some ''k''" ?w example_request example_form p q]
  note b = planning_stage_normalised [of "Some ''k''" ?w padded_name_request example_form p' q]
  note cm = planning_stage_normalised [of "Some ''k''" ?w ?mixed example_form pm q]
  note c5 = planning_stage_normalised [of "Some ''k''" ?w ?five example_form p5 q]
  note ct = planning_stage_normalised [of "Some ''k''" ?w ?true example_form pt q]
  note c1 = planning_stage_normalised [of "Some ''k''" ?w ?one example_form p1 q]
  note c0 = planning_stage_normalised [of "Some ''k''" ?w ?zero example_form p0 q]
  note cb = planning_stage_normalised [of "Some ''k''" ?w ?bad example_form p q]
  have hd_in: "hd xs \<in> set xs" if "xs \<noteq> []" for xs :: "fetch_call list"
    using that by simp
  from a p m have h: "hd (snd (handler (Some ''k'') ?w example_request))
      \<in> set (snd (handler (Some ''k'') ?w example_request))"
    "is_create (hd (snd (handler (Some ''k'') ?w example_request)))"
    by (simp_all add: hd_in)
  from b p' m have h': "hd (snd (handler (Some ''k'') ?w padded_name_request))
      \<in> set (snd (handler (Some ''k'') ?w padded_name_request))"
    "is_create (hd (snd (handler (Some ''k'') ?w padded_name_request)))"
    by (simp_all add: hd_in)
  from cm pm have hm: "hd (snd (handler (Some ''k'') ?w ?mixed))
      \<in> set (snd (handler (Some ''k'') ?w ?mixed))"
    "is_create (hd (snd (handler (Some ''k'') ?w ?mixed)))"
    by (simp_all add: hd_in phase_request_facts(1))
  from c5 p5 have h5: "hd (snd (handler (Some ''k'') ?w ?five))
      \<in> set (snd (handler (Some ''k'') ?w ?five))"
    "is_create (hd (snd (handler (Some ''k'') ?w ?five)))"
    by (simp_all add: hd_in phase_request_facts(1))
  from ct pt have ht: "hd (snd (handler (Some ''k'') ?w ?true))
      \<in> set (snd (handler (Some ''k'') ?w ?true))"
    "is_create (hd (snd (handler (Some ''k'') ?w ?true)))"
    by (simp_all add: hd_in phase_request_facts(1))
  from c1 p1 have h1: "hd (snd (handler (Some ''k'') ?w ?one))
      \<in> set (snd (handler (Some ''k'') ?w ?one))"
    "is_create (hd (snd (handler (Some ''k'') ?w ?one)))"
    by (simp_all add: hd_in phase_request_facts(1))
  from c0 p0 have h0: "hd (snd (handler (Some ''k'') ?w ?zero))
      \<in> set (snd (handler (Some ''k'') ?w ?zero))"
    "is_create (hd (snd (handler (Some ''k'') ?w ?zero)))"
    by (simp_all add: hd_in phase_request_facts(1))
  from a q have k: "hd (snd (POST (Some ''k'') ?w (Some example_form)))
      \<in> set (snd (POST (Some ''k'') ?w (Some example_form)))"
    by (simp add: hd_in)
  from a h f have 1: "sent_property (hd (snd (handler (Some ''k'') ?w example_request)))
      ''wearthy_planning_stage'' = JStr (join '';'' [''exploring'', ''preparing-next-budget''])"
    by blast
  from cm hm phase_request_facts(2) [of "JArr [JStr ''exploring'', JNull, JNum ''5'']"]
  have "\<exists>ss. join_elems [JStr ''exploring'', JNull, JNum ''5''] = Inr ss \<and>
      sent_property (hd (snd (handler (Some ''k'') ?w ?mixed))) ''wearthy_planning_stage'' =
        JStr (join '';'' ss)"
    by blast
  then have 2: "sent_property (hd (snd (handler (Some ''k'') ?w ?mixed)))
      ''wearthy_planning_stage'' = JStr (join '';'' [''exploring'', [], ''5''])"
    by (simp only: phase_examples(5)) simp
  have t5: "\<not> isArray (field (req_body ?five) ''phase[]'') \<and>
      truthy (field (req_body ?five) ''phase[]'')"
    by (simp add: phase_request_facts(2))
  from c5 h5 t5 have 3: "sent_property (hd (snd (handler (Some ''k'') ?w ?five)))
      ''wearthy_planning_stage'' = JSON_stringify (field (req_body ?five) ''phase[]'')"
    by blast
  have tt: "\<not> isArray (field (req_body ?true) ''phase[]'') \<and>
      truthy (field (req_body ?true) ''phase[]'')"
    by (simp add: phase_request_facts(2))
  from ct ht tt have 4: "sent_property (hd (snd (handler (Some ''k'') ?w ?true)))
      ''wearthy_planning_stage'' = JSON_stringify (field (req_body ?true) ''phase[]'')"
    by blast
  from c1 h1 phase_request_facts(2) [of "JStr ''exploring''"]
  have 5: "sent_property (hd (snd (handler (Some ''k'') ?w ?one)))
      ''wearthy_planning_stage'' = JStr ''exploring''"
    by blast
  have t0: "\<not> truthy (field (req_body ?zero) ''phase[]'')"
    by (simp add: phase_request_facts(2))
  from c0 h0 t0 have 6: "sent_property (hd (snd (handler (Some ''k'') ?w ?zero)))
      ''wearthy_planning_stage'' = JStr []"
    by blast
  have t': "\<not> truthy (field (req_body padded_name_request) ''phase[]'')"
    by (simp add: f')
  from b h' t' have 7: "sent_property (hd (snd (handler (Some ''k'') ?w padded_name_request)))
      ''wearthy_planning_stage'' = JStr []"
    by blast
  from cb phase_request_facts(1,2) [of "JArr [JStr ''exploring'', JObj [(''toString'', JStr ''f'')]]"]
    phase_examples(4)
  have 8: "handler (Some ''k'') ?w ?bad = (error_response, [])"
    by blast
  from a k g have 9: "sent_property (hd (snd (POST (Some ''k'') ?w (Some example_form))))
      ''wearthy_planning_stage'' = JStr (join '';'' [''exploring'', ''preparing-next-budget''])"
    by blast
  from 1 2 3 4 5 6 7 8 9 show ?thesis
    by (simp add: phase_request_facts(2))
qed

text \<open>Claim C7 as stated fails for a single value that is falsy: the body
  \<^verbatim>\<open>{"contactName": "Jane Doe", "phase[]": 0}\<close> supplies the single value \<^verbatim>\<open>0\<close>, and the
  create call carries the empty string, not \<^verbatim>\<open>0\<close>; the same holds of \<^verbatim>\<open>false\<close>.\<close>

theorem planning_stage_counterexample:
  "field (req_body (phase_request (JNum ''0''))) ''phase[]'' = JNum ''0'' \<and>
   is_create (hd (snd (handler (Some ''k'') (example_world created updated)
       (phase_request (JNum ''0''))))) \<and>
   sent_property (hd (snd (handler (Some ''k'') (example_world created updated)
       (phase_request (JNum ''0'')))))
     ''wearthy_planning_stage'' = JStr [] \<and>
   sent_property (hd (snd (handler (Some ''k'') (example_world created updated)
       (phase_request (JBool False)))))
     ''wearthy_planning_stage'' = JStr []"
proof -
  let ?w = "example_world created updated"
  have run: "is_create (hd (snd (handler (Some ''k'') ?w (phase_request v)))) \<and>
      sent_property (hd (snd (handler (Some ''k'') ?w (phase_request v))))
        ''wearthy_planning_stage'' = JStr []"
    if "\<not> truthy v" for v
  proof -
    from that have na: "\<not> isArray v" by (cases v) simp_all
    then have "planningStage (req_body (phase_request v)) = Inr (js_or v (JStr []))"
      using planningStage_single [of "req_body (phase_request v)"]
      by (simp add: phase_request_facts(2))
    from phase_request_facts(3) [OF this] obtain p where
      p: "contactPayload (req_body (phase_request v)) = Inr p" by blast
    from handler_trace [OF phase_request_facts(1) p, of "Some ''k''" ?w]
    have h: "snd (handler (Some ''k'') ?w (phase_request v)) \<noteq> []"
      "is_create (hd (snd (handler (Some ''k'') ?w (phase_request v))))"
      by (auto simp: class_calls)
    then have "hd (snd (handler (Some ''k'') ?w (phase_request v)))
        \<in> set (snd (handler (Some ''k'') ?w (phase_request v)))"
      by simp
    from handler_sent_single [OF this] h(2) na that show ?thesis
      by (simp add: phase_request_facts(2) js_or_def)
  qed
  from run [of "JNum ''0''"] run [of "JBool False"] show ?thesis
    by (simp add: phase_request_facts(2))
qed

section \<open>The optional enumerated fields\<close>












section \<open>The bodies of failures\<close>

lemma failure_bodies:
  "(status (fst (handler key w req)) = 500 \<and> status (fst (handler key' w' req')) = 500 \<longrightarrow>
      fst (handler key w req) = fst (handler key' w' req') \<and>
      fst (handler key w req) = error_response) \<and>
   (status (fst (handler2 key w req)) = 500 \<longrightarrow>
      fst (handler2 key w req) =
        (if key = None \<or> key = Some [] then config_error_response else error_response)) \<and>
   message error_response = ''An error occurred. Please try again or contact us directly.'' \<and>
   message config_error_response = ''Server configuration error. Please contact support.''"
proof (intro conjI impI)
  assume a: "status (fst (handler key w req)) = 500 \<and> status (fst (handler key' w' req')) = 500"
  from a handler_response [of key w req] have 1: "fst (handler key w req) = error_response"
    by (auto simp: response_status)
  from a handler_response [of key' w' req'] have 2: "fst (handler key' w' req') = error_response"
    by (auto simp: response_status)
  from 1 2 show "fst (handler key w req) = fst (handler key' w' req')" by simp
  from 1 show "fst (handler key w req) = error_response" .
next
  assume "status (fst (handler2 key w req)) = 500"
  with handler2_response [of key w req]
  show "fst (handler2 key w req) =
      (if key = None \<or> key = Some [] then config_error_response else error_response)"
    by (auto simp: response_status)
qed (simp_all add: error_response_def config_error_response_def)

text \<open>
  Claim C9, as amended. In the first handler any two requests that end in a 500 get the
  same body, the fixed generic message. In the handler that checks the credential a 500
  body is one of two fixed messages: the configuration message when the credential is
  missing, the generic message otherwise. Both are constants of the program: nothing of
  the request, the CRM's answer or the exception is in them.
\<close>

theorem generic_failure_body:
  "(status (fst (handler key w req)) = 500 \<and> status (fst (handler key' w' req')) = 500 \<longrightarrow>
      fst (handler key w req) = fst (handler key' w' req') \<and>
      fst (handler key w req) = error_response) \<and>
   (status (fst (handler2 key w req)) = 500 \<longrightarrow>
      fst (handler2 key w req) =
        (if key = None \<or> key = Some [] then config_error_response else error_response)) \<and>
   message error_response = ''An error occurred. Please try again or contact us directly.'' \<and>
   message config_error_response = ''Server configuration error. Please contact support.''"
  by (rule failure_bodies)

text \<open>A rejected create call and a body of \<^verbatim>\<open>null\<close> both end in a 500, with the same
  body.\<close>

theorem generic_failure_body_witness:
  "status (fst (handler (Some ''k'') (example_world Rejected Rejected) example_request)) = 500 \<and>
   status (fst (handler None (example_world created updated)
     \<lparr>req_method = ''POST'', req_body = JNull\<rparr>)) = 500 \<and>
   fst (handler (Some ''k'') (example_world Rejected Rejected) example_request) =
   fst (handler None (example_world created updated) \<lparr>req_method = ''POST'', req_body = JNull\<rparr>)"
proof -
  have 1: "status (fst (handler (Some ''k'') (example_world Rejected Rejected) example_request)) = 500"
    by (simp add: rejected_create response_status)
  have 2: "status (fst (handler None (example_world created updated)
     \<lparr>req_method = ''POST'', req_body = JNull\<rparr>)) = 500"
    by (simp add: missing_contact_name response_status)
  from generic_failure_body [of "Some ''k''" "example_world Rejected Rejected" example_request
      None "example_world created updated" "\<lparr>req_method = ''POST'', req_body = JNull\<rparr>"] 1 2
  show ?thesis by blast
qed

text \<open>Claim C9 as stated fails in the handler that checks the credential: a request
  without credential and a request whose create call is rejected both end in a 500, with
  different messages.\<close>

theorem generic_failure_body_counterexample:
  "status (fst (handler2 None (example_world created updated) example_request)) = 500 \<and>
   status (fst (handler2 (Some ''k'') (example_world Rejected Rejected) example_request)) = 500 \<and>
   message (fst (handler2 None (example_world created updated) example_request)) \<noteq>
   message (fst (handler2 (Some ''k'') (example_world Rejected Rejected) example_request))"
  by (simp add: rejected_create response_status)
    (simp add: handler2_def example_payloads(3) config_error_response_def error_response_def)

section \<open>A missing credential\<close>

lemma missing_key:
  "key = None \<or> key = Some [] \<Longrightarrow>
     handler2 key w req =
       (if req_method req = ''POST'' then config_error_response else method_not_allowed, []) \<and>
     status config_error_response = 500 \<and> status method_not_allowed = 405"
  by (auto simp: handler2_def response_status)

text \<open>
  Claim C4, as amended. In the handler that checks the credential, a \<^verbatim>\<open>POST\<close> request
  made while the token is unset or empty gets the 500 configuration response and no
  outbound call is made; a request of any other method gets the 405 response, also without
  an outbound call.
\<close>

theorem missing_key_short_circuit:
  "key = None \<or> key = Some [] \<Longrightarrow>
     handler2 key w req =
       (if req_method req = ''POST'' then config_error_response else method_not_allowed, []) \<and>
     status config_error_response = 500 \<and> status method_not_allowed = 405"
  by (rule missing_key)

text \<open>The example request without a token.\<close>

theorem missing_key_short_circuit_witness:
  "handler2 None (example_world created updated) example_request = (config_error_response, []) \<and>
   status config_error_response = 500"
  using missing_key_short_circuit [of None "example_world created updated" example_request]
  by (simp add: example_payloads(3))

text \<open>Claim C4 as stated fails twice: without a token a \<^verbatim>\<open>GET\<close> request gets a 405, not
  a 500; and the first handler, which has no check, sends the create call with the header
  \<^verbatim>\<open>Bearer undefined\<close>.\<close>

theorem missing_key_counterexample:
  "status (fst (handler2 None (example_world created updated) get_request)) = 405 \<and>
   snd (handler None (example_world created updated) example_request) \<noteq> [] \<and>
   authorization (hd (snd (handler None (example_world created updated) example_request))) =
     ''Bearer undefined''"
proof -
  obtain p where p: "contactPayload (req_body example_request) = Inr p"
    using example_payloads(1) by blast
  from handler_trace [OF example_payloads(3) p, of None "example_world created updated"]
  have "snd (handler None (example_world created updated) example_request) \<noteq> [] \<and>
    hd (snd (handler None (example_world created updated) example_request)) = create_call None p"
    by auto
  then show ?thesis
    using missing_key [of None "example_world created updated" get_request]
    by (simp add: get_request_def create_call_def bearer_def)
qed

section \<open>A conflict without an identifier\<close>

text \<open>
  Claim C1, evaluated where the handler departs from it. The create call is answered 409
  with the message \<^verbatim>\<open>Contact already exists\<close>, which has no \<^verbatim>\<open>Existing ID\<close>. The handler
  issues no update call, as the claim says; but it answers 200 with \<^verbatim>\<open>success: true\<close> and
  no \<^verbatim>\<open>contactId\<close>, where the claim says 500. Lemmas \<open>conflict_unresolved\<close> and
  \<open>conflict_unresolved_others\<close> show the same of every request whose conflict message is
  a string without the pattern, in the three routes.
\<close>

theorem conflict_without_id_reports_success:
  "status (fst (handler (Some ''k'') (example_world conflict_without_id updated) example_request)) = 200 \<and>
   success (fst (handler (Some ''k'') (example_world conflict_without_id updated) example_request)) \<and>
   contactId (fst (handler (Some ''k'') (example_world conflict_without_id updated) example_request))
     = JUndefined \<and>
   filter is_update (snd (handler (Some ''k'') (example_world conflict_without_id updated)
     example_request)) = [] \<and>
   length (snd (handler (Some ''k'') (example_world conflict_without_id updated) example_request)) = 1"
proof -
  obtain p where p: "contactPayload (req_body example_request) = Inr p"
    using example_payloads(1) by blast
  obtain e where e: "conflict_without_id = Response 409 (Some e)"
    "get_prop e ''message'' = Inr (JStr ''Contact already exists'')"
    using example_conflicts(2) by blast
  have c: "crm (example_world conflict_without_id updated) [] (create_call (Some ''k'') p) =
      Response 409 (Some e)"
    by (simp add: example_world_crm class_calls e(1))
  from conflict_unresolved [OF example_payloads(3) p c e(2) example_messages(2)]
  show ?thesis
    by (simp add: success_response_def class_calls)
qed

section \<open>A new contact\<close>

lemma new_contact_both:
  "(req_method req = ''POST'' \<and> contactPayload (req_body req) = Inr p \<and>
    crm w [] (create_call key p) = Response st (Some d) \<and> ok st \<and>
    get_prop d ''id'' = Inr cid \<longrightarrow>
      fst (handler key w req) = success_response cid \<and>
      filter is_create (snd (handler key w req)) = [create_call key p] \<and>
      filter is_update (snd (handler key w req)) = []) \<and>
   (req_method req = ''POST'' \<and> key \<noteq> None \<and> key \<noteq> Some [] \<and>
    contactPayload2 (req_body req) = Inr p2 \<and>
    crm w [] (create_call2 key p2) = Response st (Some d) \<and> ok st \<and>
    get_prop d ''id'' = Inr cid \<longrightarrow>
      filter is_create (snd (handler2 key w req)) = [create_call2 key p2] \<and>
      (fst (handler2 key w req) = success_response cid \<or>
       fst (handler2 key w req) = error_response) \<and>
      (\<forall>e. to_str cid = Inl e \<longrightarrow>
         handler2 key w req = (error_response, [create_call2 key p2])) \<and>
      (\<forall>s. to_str cid = Inr s \<longrightarrow>
         filter is_update (snd (handler2 key w req)) =
           [update_call key s (customPayload (req_body req))] \<and>
         (crm w [create_call2 key p2] (update_call key s (customPayload (req_body req))) = Rejected
            \<longrightarrow> fst (handler2 key w req) = error_response) \<and>
         (crm w [create_call2 key p2] (update_call key s (customPayload (req_body req))) \<noteq> Rejected \<and>
          (\<forall>photos. field (req_body req) ''photos'' = JArr photos \<longrightarrow>
             (\<forall>v\<in>set (upload_results key w photos 0
                 [create_call2 key p2, update_call key s (customPayload (req_body req))]).
                truthy v \<longrightarrow> renders v))
            \<longrightarrow> fst (handler2 key w req) = success_response cid))) \<and>
   status (success_response cid) = 200 \<and> contactId (success_response cid) = cid"
proof (intro conjI)
  show "req_method req = ''POST'' \<and> contactPayload (req_body req) = Inr p \<and>
    crm w [] (create_call key p) = Response st (Some d) \<and> ok st \<and>
    get_prop d ''id'' = Inr cid \<longrightarrow>
      fst (handler key w req) = success_response cid \<and>
      filter is_create (snd (handler key w req)) = [create_call key p] \<and>
      filter is_update (snd (handler key w req)) = []"
    using new_contact [of req p w key st d cid] by blast
  show "req_method req = ''POST'' \<and> key \<noteq> None \<and> key \<noteq> Some [] \<and>
    contactPayload2 (req_body req) = Inr p2 \<and>
    crm w [] (create_call2 key p2) = Response st (Some d) \<and> ok st \<and>
    get_prop d ''id'' = Inr cid \<longrightarrow>
      filter is_create (snd (handler2 key w req)) = [create_call2 key p2] \<and>
      (fst (handler2 key w req) = success_response cid \<or>
       fst (handler2 key w req) = error_response) \<and>
      (\<forall>e. to_str cid = Inl e \<longrightarrow>
         handler2 key w req = (error_response, [create_call2 key p2])) \<and>
      (\<forall>s. to_str cid = Inr s \<longrightarrow>
         filter is_update (snd (handler2 key w req)) =
           [update_call key s (customPayload (req_body req))] \<and>
         (crm w [create_call2 key p2] (update_call key s (customPayload (req_body req))) = Rejected
            \<longrightarrow> fst (handler2 key w req) = error_response) \<and>
         (crm w [create_call2 key p2] (update_call key s (customPayload (req_body req))) \<noteq> Rejected \<and>
          (\<forall>photos. field (req_body req) ''photos'' = JArr photos \<longrightarrow>
             (\<forall>v\<in>set (upload_results key w photos 0
                 [create_call2 key p2, update_call key s (customPayload (req_body req))]).
                truthy v \<longrightarrow> renders v))
            \<longrightarrow> fst (handler2 key w req) = success_response cid))"
  proof
    assume a: "req_method req = ''POST'' \<and> key \<noteq> None \<and> key \<noteq> Some [] \<and>
      contactPayload2 (req_body req) = Inr p2 \<and>
      crm w [] (create_call2 key p2) = Response st (Some d) \<and> ok st \<and>
      get_prop d ''id'' = Inr cid"
    then have "req_method req = ''POST''" "key \<noteq> None" "key \<noteq> Some []"
      "contactPayload2 (req_body req) = Inr p2"
      "crm w [] (create_call2 key p2) = Response st (Some d)" "ok st"
      "get_prop d ''id'' = Inr cid"
      by simp_all
    then show "filter is_create (snd (handler2 key w req)) = [create_call2 key p2] \<and>
      (fst (handler2 key w req) = success_response cid \<or>
       fst (handler2 key w req) = error_response) \<and>
      (\<forall>e. to_str cid = Inl e \<longrightarrow>
         handler2 key w req = (error_response, [create_call2 key p2])) \<and>
      (\<forall>s. to_str cid = Inr s \<longrightarrow>
         filter is_update (snd (handler2 key w req)) =
           [update_call key s (customPayload (req_body req))] \<and>
         (crm w [create_call2 key p2] (update_call key s (customPayload (req_body req))) = Rejected
            \<longrightarrow> fst (handler2 key w req) = error_response) \<and>
         (crm w [create_call2 key p2] (update_call key s (customPayload (req_body req))) \<noteq> Rejected \<and>
          (\<forall>photos. field (req_body req) ''photos'' = JArr photos \<longrightarrow>
             (\<forall>v\<in>set (upload_results key w photos 0
                 [create_call2 key p2, update_call key s (customPayload (req_body req))]).
                truthy v \<longrightarrow> renders v))
            \<longrightarrow> fst (handler2 key w req) = success_response cid))"
      by (rule new_contact2)
  qed
qed (simp_all add: success_response_def)

lemma example_uploads_after:
  "filter is_upload tr = [] \<Longrightarrow>
   upload_results (Some ''k'') (example_world a b)
     [JStr ''data:image/jpeg;base64,AAAA'', JStr ''data:image/jpeg;base64,BBBB'',
      JStr ''data:image/jpeg;base64,CCCC''] 0 tr =
   [JStr ''f1'', JNull, JStr ''f3'']"
  by (simp add: uploadFile_data_url class_calls json_id_def ok_def example_world_def)

lemma example_photos:
  "field (req_body example_request) ''photos'' =
     JArr [JStr ''data:image/jpeg;base64,AAAA'', JStr ''data:image/jpeg;base64,BBBB'',
           JStr ''data:image/jpeg;base64,CCCC'']"
  by (simp add: example_request_def example_body_def field_def)

lemma example_run2:
  assumes "contactPayload2 (req_body example_request) = Inr p2"
  shows "crm (example_world created updated) [] (create_call2 (Some ''k'') p2) =
      Response 201 (Some (JObj [(''id'', JStr ''501'')]))"
    and "crm (example_world created updated) [create_call2 (Some ''k'') p2]
      (update_call (Some ''k'') ''501'' (customPayload (req_body example_request))) \<noteq> Rejected"
    and "\<forall>photos. field (req_body example_request) ''photos'' = JArr photos \<longrightarrow>
       (\<forall>v\<in>set (upload_results (Some ''k'') (example_world created updated) photos 0
           [create_call2 (Some ''k'') p2,
            update_call (Some ''k'') ''501'' (customPayload (req_body example_request))]).
          truthy v \<longrightarrow> renders v)"
proof -
  show "crm (example_world created updated) [] (create_call2 (Some ''k'') p2) =
      Response 201 (Some (JObj [(''id'', JStr ''501'')]))"
    by (simp add: example_world_crm class_calls example_answers)
  show "crm (example_world created updated) [create_call2 (Some ''k'') p2]
      (update_call (Some ''k'') ''501'' (customPayload (req_body example_request))) \<noteq> Rejected"
    by (simp add: example_world_crm class_calls example_answers)
  have "filter is_upload [create_call2 (Some ''k'') p2,
      update_call (Some ''k'') ''501'' (customPayload (req_body example_request))] = []"
    by (simp add: class_calls)
  from example_uploads_after [OF this]
  show "\<forall>photos. field (req_body example_request) ''photos'' = JArr photos \<longrightarrow>
       (\<forall>v\<in>set (upload_results (Some ''k'') (example_world created updated) photos 0
           [create_call2 (Some ''k'') p2,
            update_call (Some ''k'') ''501'' (customPayload (req_body example_request))]).
          truthy v \<longrightarrow> renders v)"
    by (simp add: example_photos renders_def)
qed

text \<open>
  Claim C2, as amended. The submission is one whose payload can be built, and the create
  call is answered with a 2xx status and a JSON body \<open>d\<close> that is not \<^verbatim>\<open>null\<close>. The first
  handler then answers 200 with \<^verbatim>\<open>d.id\<close> as \<^verbatim>\<open>contactId\<close>, and has made exactly one create
  call and no \<^verbatim>\<open>PATCH\<close>. The handler with the delayed update has made exactly one create
  call, and answers either 200 with \<^verbatim>\<open>d.id\<close> or the generic 500. When \<^verbatim>\<open>d.id\<close> cannot be
  converted to a string, building the address of the update throws: the answer is 500 and
  the create call is the only call. Otherwise it has made exactly one \<^verbatim>\<open>PATCH\<close>, which
  carries the custom properties to the contact created; the answer is 500 when the network
  rejects that \<^verbatim>\<open>PATCH\<close>, and 200 with \<^verbatim>\<open>d.id\<close> when it does not and every identifier that
  the photo uploads return can be converted to a string (the log line of the photo loop
  converts it outside any inner \<^verbatim>\<open>try\<close>).
\<close>

theorem new_contact_calls:
  "(req_method req = ''POST'' \<and> contactPayload (req_body req) = Inr p \<and>
    crm w [] (create_call key p) = Response st (Some d) \<and> ok st \<and>
    get_prop d ''id'' = Inr cid \<longrightarrow>
      fst (handler key w req) = success_response cid \<and>
      filter is_create (snd (handler key w req)) = [create_call key p] \<and>
      filter is_update (snd (handler key w req)) = []) \<and>
   (req_method req = ''POST'' \<and> key \<noteq> None \<and> key \<noteq> Some [] \<and>
    contactPayload2 (req_body req) = Inr p2 \<and>
    crm w [] (create_call2 key p2) = Response st (Some d) \<and> ok st \<and>
    get_prop d ''id'' = Inr cid \<longrightarrow>
      filter is_create (snd (handler2 key w req)) = [create_call2 key p2] \<and>
      (fst (handler2 key w req) = success_response cid \<or>
       fst (handler2 key w req) = error_response) \<and>
      (\<forall>e. to_str cid = Inl e \<longrightarrow>
         handler2 key w req = (error_response, [create_call2 key p2])) \<and>
      (\<forall>s. to_str cid = Inr s \<longrightarrow>
         filter is_update (snd (handler2 key w req)) =
           [update_call key s (customPayload (req_body req))] \<and>
         (crm w [create_call2 key p2] (update_call key s (customPayload (req_body req))) = Rejected
            \<longrightarrow> fst (handler2 key w req) = error_response) \<and>
         (crm w [create_call2 key p2] (update_call key s (customPayload (req_body req))) \<noteq> Rejected \<and>
          (\<forall>photos. field (req_body req) ''photos'' = JArr photos \<longrightarrow>
             (\<forall>v\<in>set (upload_results key w photos 0
                 [create_call2 key p2, update_call key s (customPayload (req_body req))]).
                truthy v \<longrightarrow> renders v))
            \<longrightarrow> fst (handler2 key w req) = success_response cid))) \<and>
   status (success_response cid) = 200 \<and> contactId (success_response cid) = cid"
  by (rule new_contact_both)

text \<open>The example request, with a CRM that creates contact 501; and with a CRM whose
  create response gives an \<^verbatim>\<open>id\<close> that is an object with a \<^verbatim>\<open>toString\<close> property, where the
  handler with the delayed update answers 500 after the create call alone.\<close>

theorem new_contact_calls_witness:
  "fst (handler (Some ''k'') (example_world created updated) example_request) =
     success_response (JStr ''501'') \<and>
   length (filter is_create (snd (handler (Some ''k'') (example_world created updated)
     example_request))) = 1 \<and>
   filter is_update (snd (handler (Some ''k'') (example_world created updated) example_request)) = [] \<and>
   fst (handler2 (Some ''k'') (example_world created updated) example_request) =
     success_response (JStr ''501'') \<and>
   length (filter is_create (snd (handler2 (Some ''k'') (example_world created updated)
     example_request))) = 1 \<and>
   map url (filter is_update (snd (handler2 (Some ''k'') (example_world created updated)
     example_request))) = [''https://api.hubapi.com/crm/v3/objects/contacts/501''] \<and>
   fst (handler2 (Some ''k'')
     (example_world (Response 201 (Some (JObj [(''id'', JObj [(''toString'', JStr ''f'')])]))) updated)
     example_request) = error_response \<and>
   length (snd (handler2 (Some ''k'')
     (example_world (Response 201 (Some (JObj [(''id'', JObj [(''toString'', JStr ''f'')])]))) updated)
     example_request)) = 1"
proof -
  let ?w = "example_world created updated"
  let ?d = "JObj [(''id'', JObj [(''toString'', JStr ''f'')])]"
  let ?v = "example_world (Response 201 (Some ?d)) updated"
  obtain p where p: "contactPayload (req_body example_request) = Inr p"
    using example_payloads(1) by blast
  obtain p2 where p2: "contactPayload2 (req_body example_request) = Inr p2"
    using example_payloads(2) by blast
  have c: "crm ?w [] (create_call (Some ''k'') p) = Response 201 (Some (JObj [(''id'', JStr ''501'')]))"
    by (simp add: example_world_crm class_calls example_answers)
  have s: "to_str (JStr ''501'') = Inr ''501''" by simp
  have c': "crm ?v [] (create_call2 (Some ''k'') p2) = Response 201 (Some ?d)"
    by (simp add: example_world_crm class_calls)
  note t' = new_contact_calls [of example_request p ?v "Some ''k''" 201 ?d
      "JObj [(''toString'', JStr ''f'')]" p2]
  from t' p2 c' have "\<forall>e. to_str (JObj [(''toString'', JStr ''f'')]) = Inl e \<longrightarrow>
      handler2 (Some ''k'') ?v example_request = (error_response, [create_call2 (Some ''k'') p2])"
    by (simp add: example_payloads(3) example_answers del: to_str.simps)
  then have 5: "handler2 (Some ''k'') ?v example_request =
      (error_response, [create_call2 (Some ''k'') p2])"
    by simp
  note t = new_contact_calls [of example_request p ?w "Some ''k''" 201
      "JObj [(''id'', JStr ''501'')]" "JStr ''501''" p2]
  from t p c have 1: "fst (handler (Some ''k'') ?w example_request) = success_response (JStr ''501'')"
    "filter is_create (snd (handler (Some ''k'') ?w example_request)) = [create_call (Some ''k'') p]"
    "filter is_update (snd (handler (Some ''k'') ?w example_request)) = []"
    by (simp_all add: example_payloads(3) example_answers)
  from t p2 example_run2(1) [OF p2]
  have 2: "filter is_create (snd (handler2 (Some ''k'') ?w example_request)) =
      [create_call2 (Some ''k'') p2]"
    and 3: "\<forall>s. to_str (JStr ''501'') = Inr s \<longrightarrow>
         filter is_update (snd (handler2 (Some ''k'') ?w example_request)) =
           [update_call (Some ''k'') s (customPayload (req_body example_request))] \<and>
         (crm ?w [create_call2 (Some ''k'') p2]
            (update_call (Some ''k'') s (customPayload (req_body example_request))) \<noteq> Rejected \<and>
          (\<forall>photos. field (req_body example_request) ''photos'' = JArr photos \<longrightarrow>
             (\<forall>v\<in>set (upload_results (Some ''k'') ?w photos 0
                 [create_call2 (Some ''k'') p2,
                  update_call (Some ''k'') s (customPayload (req_body example_request))]).
                truthy v \<longrightarrow> renders v))
            \<longrightarrow> fst (handler2 (Some ''k'') ?w example_request) = success_response (JStr ''501''))"
    by (simp_all add: example_payloads(3) example_answers)
  from 3 s example_run2(2,3) [OF p2]
  have 4: "filter is_update (snd (handler2 (Some ''k'') ?w example_request)) =
      [update_call (Some ''k'') ''501'' (customPayload (req_body example_request))]"
    "fst (handler2 (Some ''k'') ?w example_request) = success_response (JStr ''501'')"
    by blast+
  from 1 2 4 5 show ?thesis
    by (simp add: update_call_def HUBSPOT_API_URL_def)
qed

text \<open>Claim C2 as stated fails in the handler with the delayed update: for a new contact
  it answers 200 and has issued a \<^verbatim>\<open>PATCH\<close>.\<close>

theorem new_contact_calls_counterexample:
  "status (fst (handler2 (Some ''k'') (example_world created updated) example_request)) = 200 \<and>
   map url (filter is_update (snd (handler2 (Some ''k'') (example_world created updated)
     example_request))) = [''https://api.hubapi.com/crm/v3/objects/contacts/501'']"
proof -
  let ?w = "example_world created updated"
  obtain p2 where p2: "contactPayload2 (req_body example_request) = Inr p2"
    using example_payloads(2) by blast
  have s: "to_str (JStr ''501'') = Inr ''501''" by simp
  from new_contact2 [OF example_payloads(3) _ _ p2 example_run2(1) [OF p2] example_answers(5)
      example_answers(2)] s example_run2(2,3) [OF p2]
  have "filter is_update (snd (handler2 (Some ''k'') ?w example_request)) =
      [update_call (Some ''k'') ''501'' (customPayload (req_body example_request))]"
    "fst (handler2 (Some ''k'') ?w example_request) = success_response (JStr ''501'')"
    by (simp_all del: to_str.simps)
  then show ?thesis
    by (simp add: success_response_def update_call_def HUBSPOT_API_URL_def)
qed

section \<open>An existing contact\<close>

text \<open>
  Claim C3, evaluated where the handler departs from it. The create call is answered 409
  with the message \<^verbatim>\<open>Contact already exists. Existing ID: 123\<close>, and the CRM refuses the
  update of contact 123 with status 400 and an error body (one without \<^verbatim>\<open>id\<close>). The
  first handler and the form-data route issue one \<^verbatim>\<open>PATCH\<close>, addressed to contact 123, as
  the claim says. But the status of the update response is never read and \<^verbatim>\<open>contactId\<close> is
  taken from its body: both routes answer 200 with \<^verbatim>\<open>success: true\<close> and no
  \<^verbatim>\<open>contactId\<close>, where the claim says that the response carries 123, and the first handler
  skips the photos of the request. Nothing was written to the CRM. Lemma
  \<open>conflict_one_update\<close> shows the one \<^verbatim>\<open>PATCH\<close> for every such conflict, whatever the
  CRM answers to it, and lemmas \<open>conflict_update_handler\<close> and \<open>conflict_update_POST\<close>
  show that the response carries the \<^verbatim>\<open>id\<close> of the update response whatever its status.
\<close>

theorem refused_update_reports_success:
  "status (fst (handler (Some ''k'') (example_world conflict update_refused) example_request)) = 200 \<and>
   success (fst (handler (Some ''k'') (example_world conflict update_refused) example_request)) \<and>
   contactId (fst (handler (Some ''k'') (example_world conflict update_refused) example_request))
     = JUndefined \<and>
   map url (filter is_update (snd (handler (Some ''k'') (example_world conflict update_refused)
     example_request))) = [''https://api.hubapi.com/crm/v3/objects/contacts/123''] \<and>
   length (snd (handler (Some ''k'') (example_world conflict update_refused) example_request)) = 2 \<and>
   status (fst (POST (Some ''k'') (example_world conflict update_refused) (Some example_form))) = 200 \<and>
   success (fst (POST (Some ''k'') (example_world conflict update_refused) (Some example_form))) \<and>
   contactId (fst (POST (Some ''k'') (example_world conflict update_refused) (Some example_form)))
     = JUndefined \<and>
   map url (filter is_update (snd (POST (Some ''k'') (example_world conflict update_refused)
     (Some example_form)))) = [''https://api.hubapi.com/crm/v3/objects/contacts/123''] \<and>
   length (snd (POST (Some ''k'') (example_world conflict update_refused) (Some example_form))) = 2"
proof -
  let ?w = "example_world conflict update_refused"
  let ?m = "''Contact already exists. Existing ID: 123''"
  obtain p where p: "contactPayload (req_body example_request) = Inr p"
    using example_payloads(1) by blast
  obtain q where q: "form_contactPayload example_form = Inr q"
    using example_form_payload by blast
  obtain e where e: "conflict = Response 409 (Some e)" "get_prop e ''message'' = Inr (JStr ?m)"
    using example_conflicts(1) by blast
  obtain u where u: "update_refused = Response 400 (Some u)" "get_prop u ''id'' = Inr JUndefined"
    using example_conflicts(3) by blast
  have c: "crm ?w [] (create_call (Some ''k'') x) = Response 409 (Some e)" for x
    by (simp add: example_world_crm class_calls e(1))
  have r: "crm ?w [create_call (Some ''k'') x] (update_call (Some ''k'') ''123'' x) =
      Response 400 (Some u)" for x
    by (simp add: example_world_crm class_calls u(1))
  obtain r1 tr1 where cu: "create_or_update (Some ''k'') ?w p = (r1, tr1)"
    by (cases "create_or_update (Some ''k'') ?w p")
  from conflict_update_general [OF cu c e(2) example_messages(1) r u(2)] cu
  have "create_or_update (Some ''k'') ?w p =
      (Inr JUndefined, [create_call (Some ''k'') p, update_call (Some ''k'') ''123'' p])"
    by simp
  with p have h: "handler (Some ''k'') ?w example_request =
      (success_response JUndefined, [create_call (Some ''k'') p, update_call (Some ''k'') ''123'' p])"
    by (simp add: handler_def example_payloads(3) photo_phase_falsy)
  from conflict_update_POST [OF q c e(2) example_messages(1) r u(2)]
  have f: "POST (Some ''k'') ?w (Some example_form) =
      (success_response JUndefined, [create_call (Some ''k'') q, update_call (Some ''k'') ''123'' q])"
    by simp
  have "url (update_call (Some ''k'') ''123'' x) =
      ''https://api.hubapi.com/crm/v3/objects/contacts/123''" for x
    by (simp add: update_call_def HUBSPOT_API_URL_def)
  with h f show ?thesis
    by (simp add: success_response_def class_calls)
qed

section \<open>Photos and the note\<close>





section \<open>Photos that are not data URLs\<close>

lemma photo_skipped:
  "(no_data_url fileData \<longrightarrow>
      uploadFileToHubSpot key w tr fileData fileName = (JNull, tr)) \<and>
   (CHR '','' \<in> set s \<longrightarrow>
      uploadFileToHubSpot key w tr (JStr s) fileName =
        (case crm w tr (upload_call key fileName (buffer_from_base64 w
            (takeWhile (\<lambda>c. c \<noteq> CHR '','') (drop 1 (dropWhile (\<lambda>c. c \<noteq> CHR '','') s))))) of
           Rejected \<Rightarrow> JNull
         | Response st b \<Rightarrow>
             if ok st then (case json_id b of Inl e \<Rightarrow> JNull | Inr v \<Rightarrow> v) else JNull,
         tr @ [upload_call key fileName (buffer_from_base64 w
            (takeWhile (\<lambda>c. c \<noteq> CHR '','') (drop 1 (dropWhile (\<lambda>c. c \<noteq> CHR '','') s))))])) \<and>
   (no_data_url ph \<longrightarrow>
      upload_results key w (ph # photos) i tr = JNull # upload_results key w photos (i + 1) tr) \<and>
   (req_method req = ''POST'' \<and> contactPayload (req_body req) = Inr p \<and>
    create_or_update key w p = (Inr cid, tr0) \<longrightarrow>
      fst (handler key w req) = success_response cid \<and>
      (field (req_body req) ''photos'' = JArr photos \<and> (\<forall>ph\<in>set photos. no_data_url ph) \<longrightarrow>
         snd (handler key w req) = tr0))"
proof (intro conjI impI)
  assume "no_data_url fileData"
  then show "uploadFileToHubSpot key w tr fileData fileName = (JNull, tr)"
    by (rule uploadFile_no_data_url)
next
  assume "CHR '','' \<in> set s"
  then show "uploadFileToHubSpot key w tr (JStr s) fileName =
        (case crm w tr (upload_call key fileName (buffer_from_base64 w
            (takeWhile (\<lambda>c. c \<noteq> CHR '','') (drop 1 (dropWhile (\<lambda>c. c \<noteq> CHR '','') s))))) of
           Rejected \<Rightarrow> JNull
         | Response st b \<Rightarrow>
             if ok st then (case json_id b of Inl e \<Rightarrow> JNull | Inr v \<Rightarrow> v) else JNull,
         tr @ [upload_call key fileName (buffer_from_base64 w
            (takeWhile (\<lambda>c. c \<noteq> CHR '','') (drop 1 (dropWhile (\<lambda>c. c \<noteq> CHR '','') s))))])"
    by (rule uploadFile_data_url)
next
  assume "no_data_url ph"
  then show "upload_results key w (ph # photos) i tr =
      JNull # upload_results key w photos (i + 1) tr"
    by (rule upload_results_no_data_url)
next
  assume a: "req_method req = ''POST'' \<and> contactPayload (req_body req) = Inr p \<and>
    create_or_update key w p = (Inr cid, tr0)"
  then show "fst (handler key w req) = success_response cid"
    by (simp add: handler_def)
  assume b: "field (req_body req) ''photos'' = JArr photos \<and> (\<forall>ph\<in>set photos. no_data_url ph)"
  show "snd (handler key w req) = tr0"
  proof (cases "truthy cid")
    case True
    with a b show ?thesis
      by (simp add: handler_def photo_phase_unfold upload_photos_no_data_url)
  next
    case False
    with a show ?thesis
      by (simp add: handler_def photo_phase_falsy)
  qed
qed

text \<open>
  Claim C10, as amended. \<^verbatim>\<open>uploadFileToHubSpot\<close> always returns. For a payload that is not
  a string, or a string without a comma, it returns \<^verbatim>\<open>null\<close> and makes no call, and the
  photo loop goes on with the next photo. For a string with a comma it submits whatever
  \<^verbatim>\<open>Buffer.from\<close> decodes from the text between the first and the second comma, and
  returns \<^verbatim>\<open>null\<close> when the call is rejected, refused or answered with a body that is not
  JSON, and the \<^verbatim>\<open>id\<close> of the answer otherwise: the text after the comma is not checked
  to be base64. Whatever the photos are, a request whose contact was resolved gets the
  200 response; when no photo is a data URL no call is added to those of the contact.
\<close>

theorem malformed_photo_skipped:
  "(no_data_url fileData \<longrightarrow>
      uploadFileToHubSpot key w tr fileData fileName = (JNull, tr)) \<and>
   (CHR '','' \<in> set s \<longrightarrow>
      uploadFileToHubSpot key w tr (JStr s) fileName =
        (case crm w tr (upload_call key fileName (buffer_from_base64 w
            (takeWhile (\<lambda>c. c \<noteq> CHR '','') (drop 1 (dropWhile (\<lambda>c. c \<noteq> CHR '','') s))))) of
           Rejected \<Rightarrow> JNull
         | Response st b \<Rightarrow>
             if ok st then (case json_id b of Inl e \<Rightarrow> JNull | Inr v \<Rightarrow> v) else JNull,
         tr @ [upload_call key fileName (buffer_from_base64 w
            (takeWhile (\<lambda>c. c \<noteq> CHR '','') (drop 1 (dropWhile (\<lambda>c. c \<noteq> CHR '','') s))))])) \<and>
   (no_data_url ph \<longrightarrow>
      upload_results key w (ph # photos) i tr = JNull # upload_results key w photos (i + 1) tr) \<and>
   (req_method req = ''POST'' \<and> contactPayload (req_body req) = Inr p \<and>
    create_or_update key w p = (Inr cid, tr0) \<longrightarrow>
      fst (handler key w req) = success_response cid \<and>
      (field (req_body req) ''photos'' = JArr photos \<and> (\<forall>ph\<in>set photos. no_data_url ph) \<longrightarrow>
         snd (handler key w req) = tr0))"
  by (rule photo_skipped)

text \<open>A photo without a comma, and a request whose photos are such a string and a
  number.\<close>

theorem malformed_photo_skipped_witness:
  "uploadFileToHubSpot (Some ''k'') (example_world created updated) [] (JStr ''not-a-data-url'')
     ''photo.jpg'' = (JNull, []) \<and>
   status (fst (handler (Some ''k'') (example_world created updated) malformed_photo_request)) = 200 \<and>
   success (fst (handler (Some ''k'') (example_world created updated) malformed_photo_request)) \<and>
   length (snd (handler (Some ''k'') (example_world created updated) malformed_photo_request)) = 1"
proof -
  let ?w = "example_world created updated"
  obtain p where p: "contactPayload (req_body malformed_photo_request) = Inr p"
    "create_or_update (Some ''k'') ?w p = (Inr (JStr ''501''), [create_call (Some ''k'') p])"
    using malformed_example(2) by blast
  have n: "no_data_url (JStr ''not-a-data-url'')"
    "\<forall>ph\<in>set [JStr ''not-a-data-url'', JNum ''7'']. no_data_url ph"
    by simp_all
  from malformed_photo_skipped [where fileData = "JStr ''not-a-data-url''" and key = "Some ''k''"
      and w = ?w and tr = "[]" and fileName = "''photo.jpg''" and req = malformed_photo_request
      and p = p and cid = "JStr ''501''" and ?tr0.0 = "[create_call (Some ''k'') p]"
      and photos = "[JStr ''not-a-data-url'', JNum ''7'']"]
    n p malformed_example(1,3)
  show ?thesis
    by (simp add: success_response_def)
qed

text \<open>Claim C10 as stated fails for invalid base64 after the comma: \<^verbatim>\<open>!!!\<close> is not
  base64, the file is submitted all the same, and the result is the identifier the CRM
  gives, not \<^verbatim>\<open>null\<close>.\<close>

theorem malformed_photo_counterexample:
  "CHR '','' \<in> set ''data:image/jpeg;base64,!!!'' \<and>
   fst (uploadFileToHubSpot (Some ''k'') (example_world created updated) []
     (JStr ''data:image/jpeg;base64,!!!'') ''photo.jpg'') = JStr ''f1'' \<and>
   length (snd (uploadFileToHubSpot (Some ''k'') (example_world created updated) []
     (JStr ''data:image/jpeg;base64,!!!'') ''photo.jpg'')) = 1"
  by (simp add: uploadFile_data_url class_calls json_id_def ok_def example_world_def)

end
